theory Spec2Isabelle
  imports Complex_Main "HOL-Library.Char_ord" "HOL-Library.List_Lexorder"
    "HOL-Library.Product_Lexorder" "HOL-Library.AList"
begin

section \<open>Python floats\<close>

text \<open>
  The predictor computes with NumPy \<^verbatim>\<open>float64\<close> values. A finite binary64 number is
  modelled by the rational number it denotes, and every arithmetic operation is the exact
  operation followed by \<open>fl\<close>, rounding to the nearest binary64 number with ties to the
  even significand (53 bits of precision, gradual underflow below \<open>2 powi (- 1022)\<close>).
  Infinities and NaN are not part of the model: every quantity below is bounded by the
  \<^verbatim>\<open>int64\<close> range of the columns it is computed from, far below \<open>2 powi 1024\<close>.
\<close>

function bitlen :: "int \<Rightarrow> int" where
  "bitlen n = (if n \<le> 0 then 0 else 1 + bitlen (n div 2))"
  by pat_completeness auto
termination
  by (relation "measure nat") auto

declare bitlen.simps [simp del]

text \<open>\<open>ilog2 x\<close> is the binary exponent of a positive rational: \<open>2 powi ilog2 x \<le> x < 2 powi (ilog2 x + 1)\<close>.\<close>

definition ilog2 :: "rat \<Rightarrow> int" where
  "ilog2 x = (let (a, b) = quotient_of x; k = bitlen a - bitlen b
              in if 2 powi k \<le> x then k else k - 1)"

definition round_half_even :: "rat \<Rightarrow> int" where
  "round_half_even q = (let f = \<lfloor>q\<rfloor>; d = q - of_int f in
     if d < 1 / 2 then f else if 1 / 2 < d then f + 1 else if even f then f else f + 1)"

text \<open>The exponent of the unit in the last place of the binade of \<open>x\<close>.\<close>

definition ulp_exp :: "rat \<Rightarrow> int" where
  "ulp_exp x = max (ilog2 \<bar>x\<bar> - 52) (- 1074)"

definition fl :: "rat \<Rightarrow> rat" where
  "fl x = (if x = 0 then 0
           else of_int (round_half_even (x / 2 powi (ulp_exp x))) * 2 powi (ulp_exp x))"

text \<open>A rational is a binary64 number when rounding leaves it alone.\<close>

definition is_float :: "rat \<Rightarrow> bool" where
  "is_float x \<longleftrightarrow> fl x = x"

definition fadd :: "rat \<Rightarrow> rat \<Rightarrow> rat" where
  "fadd a b = fl (a + b)"

definition fmul :: "rat \<Rightarrow> rat \<Rightarrow> rat" where
  "fmul a b = fl (a * b)"

definition fdiv :: "rat \<Rightarrow> rat \<Rightarrow> rat" where
  "fdiv a b = fl (a / b)"

text \<open>Conversion of an integer column entry to \<^verbatim>\<open>float64\<close>, as NumPy does before a mixed operation.\<close>

definition float_of_int :: "int \<Rightarrow> rat" where
  "float_of_int n = fl (of_int n)"

text \<open>
  The integer columns of the tables are \<^verbatim>\<open>int64\<close>: the result of an integer operation on
  them wraps around. \<open>int64\<close> is that wrap-around, and \<open>is_int64\<close> holds of the integers
  it leaves alone.
\<close>

definition int64 :: "int \<Rightarrow> int" where
  "int64 n = (n + 2 ^ 63) mod 2 ^ 64 - 2 ^ 63"


text \<open>\<^verbatim>\<open>(condition).astype(int)\<close>\<close>

definition astype_int :: "bool \<Rightarrow> int" where
  "astype_int b = (if b then 1 else 0)"

text \<open>\<^verbatim>\<open>np.clip(x, lo, hi)\<close> is \<^verbatim>\<open>minimum(maximum(x, lo), hi)\<close>.\<close>

definition np_clip :: "rat \<Rightarrow> rat \<Rightarrow> rat \<Rightarrow> rat" where
  "np_clip x lo hi = min (max x lo) hi"

section \<open>Appointment records and the feature engineer\<close>

text \<open>
  A \<^verbatim>\<open>datetime\<close> is its proleptic Gregorian day number together with the hour of the day;
  the generator only produces midnights.
\<close>

record datetime =
  ordinal :: int
  hour :: int

definition timedelta_add :: "datetime \<Rightarrow> int \<Rightarrow> datetime" where
  "timedelta_add d n = d\<lparr>ordinal := ordinal d + n\<rparr>"

text \<open>One row of the table built by \<^verbatim>\<open>load_and_clean_data\<close>, with the columns' names.\<close>

record appointment =
  PatientId :: int
  AppointmentID :: int
  Gender :: string
  Age :: int
  Neighbourhood :: string
  Scholarship :: int
  Hipertension :: int
  Diabetes :: int
  Alcoholism :: int
  Handcap :: int
  SMS_received :: int
  days_between :: int
  scheduled_weekday :: int
  appointment_weekday :: int
  No_show :: int
  ScheduledDay :: datetime
  AppointmentDay :: datetime

text \<open>
  \<^verbatim>\<open>pd.cut(x, bins, labels)\<close> with its defaults \<^verbatim>\<open>right=True, include_lowest=False\<close>:
  the \<open>i\<close>-th label is given to the values of \<open>(bins[i], bins[i+1]]\<close>, and a value outside every
  interval gets no category (NaN, here \<open>None\<close>).
\<close>

fun pd_cut :: "int list \<Rightarrow> 'a list \<Rightarrow> int \<Rightarrow> 'a option" where
  "pd_cut (lo # hi # bins) (l # labels) x =
     (if lo < x \<and> x \<le> hi then Some l else pd_cut (hi # bins) labels x)"
| "pd_cut _ _ _ = None"

definition age_group :: "int \<Rightarrow> string option" where
  "age_group a =
     pd_cut [0, 18, 35, 50, 65, 100]
       [''child'', ''young_adult'', ''adult'', ''middle_aged'', ''senior''] a"


text \<open>
  The risk score, term by term as in \<^verbatim>\<open>feature_engineering\<close>: each integer factor
  (the difference \<^verbatim>\<open>1 - df['SMS_received']\<close> is an \<^verbatim>\<open>int64\<close> subtraction) is converted to a
  float, multiplied by its weight, and the five products are added from left to right.
\<close>

definition risk_score :: "appointment \<Rightarrow> rat" where
  "risk_score r =
     fadd (fadd (fadd (fadd
       (fmul (float_of_int (astype_int (Age r < 18))) (fl (3 / 10)))
       (fmul (float_of_int (astype_int (Age r > 80))) (fl (1 / 10))))
       (fmul (float_of_int (int64 (1 - SMS_received r))) (fl (4 / 10))))
       (fmul (np_clip (fdiv (float_of_int (days_between r)) (fl 30)) 0 1) (fl (3 / 10))))
       (fmul (float_of_int (Scholarship r)) (fl (2 / 10)))"





text \<open>
  The formula of the specification for the risk score, in the same float arithmetic:
  \<^verbatim>\<open>0.3*[age<18] + 0.1*[age>80] + 0.4*(1 - sms) + 0.3*min(days/30, 1) + 0.2*scholarship\<close>.
\<close>

definition spec_risk :: "int \<Rightarrow> int \<Rightarrow> int \<Rightarrow> int \<Rightarrow> rat" where
  "spec_risk age sms days scholarship =
     fadd (fadd (fadd (fadd
       (fmul (fl (3 / 10)) (float_of_int (astype_int (age < 18))))
       (fmul (fl (1 / 10)) (float_of_int (astype_int (age > 80)))))
       (fmul (fl (4 / 10)) (float_of_int (1 - sms))))
       (fmul (fl (3 / 10)) (min (fdiv (float_of_int days) (fl 30)) 1)))
       (fmul (fl (2 / 10)) (float_of_int scholarship))"

section \<open>Risk tiers\<close>

text \<open>The last line of \<^verbatim>\<open>predict_single\<close>; the thresholds are the float literals.\<close>

definition risk_level :: "rat \<Rightarrow> string" where
  "risk_level probability =
     (if probability > fl (6 / 10) then ''High''
      else if probability > fl (3 / 10) then ''Medium'' else ''Low'')"

text \<open>
  The record of the specification's end-to-end scenario: age 10, no SMS, 40 days of wait,
  scholarship, no health condition.
\<close>

definition scenario_appointment :: appointment where
  "scenario_appointment =
     \<lparr>PatientId = 1000000, AppointmentID = 5000000, Gender = ''F'', Age = 10,
      Neighbourhood = ''JARDIM DA PENHA'', Scholarship = 1, Hipertension = 0, Diabetes = 0,
      Alcoholism = 0, Handcap = 0, SMS_received = 0, days_between = 40,
      scheduled_weekday = 1, appointment_weekday = 1, No_show = 0,
      ScheduledDay = \<lparr>ordinal = 736083, hour = 0\<rparr>,
      AppointmentDay = \<lparr>ordinal = 736123, hour = 0\<rparr>\<rparr>"

section \<open>Data frames and the feature encoder\<close>

text \<open>The Python exceptions that the modelled code and its libraries raise.\<close>

datatype error =
    ValueError string
  | KeyError "string list"
  | TypeError string
  | IndexError string
  | NotFittedError string
  | UnicodeEncodeError string

text \<open>
  A cell of a data frame (or a value of a JSON record): a number, a string, a timestamp, or
  the missing value NaN. A data frame maps the names of its columns to the columns; a column
  that is absent is \<open>None\<close>.
\<close>

datatype cell =
    is_Num: Num (the_Num: rat)
  | is_Str: Str (the_Str: string)
  | Timestamp datetime
  | NaN

type_synonym dataframe = "string \<rightharpoonup> cell list"

text \<open>\<^verbatim>\<open>pd.DataFrame([patient_data])\<close>: one row, one column for each key of the dictionary.\<close>

definition DataFrame_of_dict :: "(string \<rightharpoonup> cell) \<Rightarrow> dataframe" where
  "DataFrame_of_dict patient_data = (\<lambda>c. map_option (\<lambda>v. [v]) (patient_data c))"

definition feature_cols :: "string list" where
  "feature_cols =
     [''Age'', ''Gender'', ''Scholarship'', ''Hipertension'', ''Diabetes'',
      ''Alcoholism'', ''Handcap'', ''SMS_received'', ''days_between'',
      ''scheduled_weekday'', ''appointment_weekday'', ''total_conditions'',
      ''risk_score'', ''is_weekend'']"

fun index_of :: "'a list \<Rightarrow> 'a \<Rightarrow> nat" where
  "index_of [] v = 0"
| "index_of (x # xs) v = (if x = v then 0 else Suc (index_of xs v))"

text \<open>
  scikit-learn's \<^verbatim>\<open>LabelEncoder\<close>. Fitting stores the distinct labels in sorted order
  (\<^verbatim>\<open>classes_\<close>), with the missing value, if the column has one, as a label of its own
  after them; the other labels must be uniformly strings, numbers or timestamps.
  Transforming replaces a label by its position in \<^verbatim>\<open>classes_\<close> and raises
  \<^verbatim>\<open>ValueError\<close> on a label that was not seen by \<^verbatim>\<open>fit\<close>. An encoder that was created and
  never fitted is \<open>None\<close>.
\<close>

fun is_Timestamp :: "cell \<Rightarrow> bool" where
  "is_Timestamp (Timestamp d) = True"
| "is_Timestamp _ = False"

fun timestamp_key :: "cell \<Rightarrow> int \<times> int" where
  "timestamp_key (Timestamp d) = (ordinal d, hour d)"
| "timestamp_key _ = (0, 0)"

definition LabelEncoder_fit :: "cell list \<Rightarrow> error + cell list" where
  "LabelEncoder_fit y =
     (let present = filter (\<lambda>v. v \<noteq> NaN) y;
          missing = (if NaN \<in> set y then [NaN] else [])
      in if list_all is_Str present
         then Inr (map Str (sort (remdups (map the_Str present))) @ missing)
         else if list_all is_Num present
         then Inr (map Num (sort (remdups (map the_Num present))) @ missing)
         else if list_all is_Timestamp present
         then Inr (sort_key timestamp_key (remdups present) @ missing)
         else Inl (TypeError
           ''Encoders require their input argument must be uniformly strings or numbers.''))"

definition LabelEncoder_transform :: "cell list option \<Rightarrow> cell list \<Rightarrow> error + cell list" where
  "LabelEncoder_transform encoder y =
     (case encoder of
        None \<Rightarrow> Inl (NotFittedError ''This LabelEncoder instance is not fitted yet.'')
      | Some classes \<Rightarrow>
          if list_ex (\<lambda>v. v \<notin> set classes) y
          then Inl (ValueError ''y contains previously unseen labels'')
          else Inr (map (\<lambda>v. Num (of_nat (index_of classes v))) y))"

text \<open>\<^verbatim>\<open>X['Gender'].map({'F': 0, 'M': 1}).fillna(0)\<close>\<close>

definition Series_map :: "(cell \<times> cell) list \<Rightarrow> cell list \<Rightarrow> cell list" where
  "Series_map d s = map (\<lambda>v. case map_of d v of None \<Rightarrow> NaN | Some c \<Rightarrow> c) s"

definition fillna :: "cell \<Rightarrow> cell list \<Rightarrow> cell list" where
  "fillna v s = map (\<lambda>c. if c = NaN then v else c) s"

text \<open>
  The state of a \<^verbatim>\<open>DataPreprocessor\<close>: the dictionary \<^verbatim>\<open>label_encoders\<close>, from a column
  name to its encoder (an encoder is its \<^verbatim>\<open>classes_\<close>). The \<^verbatim>\<open>scaler\<close> field is never
  used by the code and is left out.
\<close>

record DataPreprocessor =
  label_encoders :: "string \<rightharpoonup> cell list option"

type_synonym matrix = "(string \<times> cell list) list"

text \<open>
  \<^verbatim>\<open>prepare_features(self, df, fit_encoders)\<close>. The result is the pair of the outcome (an
  exception, or the feature matrix as the list of its named columns in the order of
  \<open>feature_cols\<close>, with the label column if the frame has one) and of the preprocessor as
  the call leaves it.
\<close>

definition prepare_features ::
  "DataPreprocessor \<Rightarrow> dataframe \<Rightarrow> bool \<Rightarrow>
     (error + matrix \<times> cell list option) \<times> DataPreprocessor" where
  "prepare_features self df fit_encoders =
     (case filter (\<lambda>c. df c = None) feature_cols of
        c # cs \<Rightarrow> (Inl (KeyError (c # cs)), self)
      | [] \<Rightarrow>
          let X = map (\<lambda>c. (c, the (df c))) feature_cols;
              gender = the (df ''Gender'');
              y = df ''No-show''
          in if fit_encoders then
               (case LabelEncoder_fit gender of
                  Inl e \<Rightarrow> (Inl e, self\<lparr>label_encoders := (label_encoders self)(''Gender'' \<mapsto> None)\<rparr>)
                | Inr classes \<Rightarrow>
                    (case LabelEncoder_transform (Some classes) gender of
                       Inl e \<Rightarrow>
                         (Inl e,
                          self\<lparr>label_encoders := (label_encoders self)(''Gender'' \<mapsto> Some classes)\<rparr>)
                     | Inr codes \<Rightarrow>
                         (Inr (AList.update ''Gender'' codes X, y),
                          self\<lparr>label_encoders := (label_encoders self)(''Gender'' \<mapsto> Some classes)\<rparr>)))
             else
               (case label_encoders self ''Gender'' of
                  Some encoder \<Rightarrow>
                    (case LabelEncoder_transform encoder gender of
                       Inl e \<Rightarrow> (Inl e, self)
                     | Inr codes \<Rightarrow> (Inr (AList.update ''Gender'' codes X, y), self))
                | None \<Rightarrow>
                    (Inr (AList.update ''Gender''
                            (fillna (Num 0)
                               (Series_map [(Str ''F'', Num 0), (Str ''M'', Num 1)] gender))
                            X, y),
                     self)))"

section \<open>The prediction engine\<close>

text \<open>
  The classifiers, the metrics and the train/test split are scikit-learn's. They are
  parameters of the model, with the contract the code relies on: \<^verbatim>\<open>fit\<close> gives a fitted
  model or raises, a fitted model predicts labels and class probabilities for the rows of a
  matrix or raises, a metric gives a number or raises.
\<close>

datatype estimator =
    RandomForestClassifier
  | GradientBoostingClassifier
  | LogisticRegression
  | SVC

record 'm sklearn =
  fit :: "estimator \<Rightarrow> matrix \<Rightarrow> cell list \<Rightarrow> error + 'm"
  predict :: "'m \<Rightarrow> matrix \<Rightarrow> error + int list"
  predict_proba :: "'m \<Rightarrow> matrix \<Rightarrow> error + rat list list"
  accuracy_score :: "cell list \<Rightarrow> int list \<Rightarrow> error + rat"
  precision_score :: "cell list \<Rightarrow> int list \<Rightarrow> error + rat"
  recall_score :: "cell list \<Rightarrow> int list \<Rightarrow> error + rat"
  f1_score :: "cell list \<Rightarrow> int list \<Rightarrow> error + rat"
  roc_auc_score :: "cell list \<Rightarrow> rat list \<Rightarrow> error + rat"
  train_test_split ::
    "matrix \<Rightarrow> cell list option \<Rightarrow> error + matrix \<times> matrix \<times> cell list \<times> cell list"

record metrics =
  accuracy :: rat
  precision :: rat
  recall :: rat
  f1 :: rat
  roc_auc :: rat

record 'm model_result =
  model :: 'm
  metrics :: metrics
  predictions :: "int list"
  probabilities :: "rat list"

text \<open>
  A \<^verbatim>\<open>NoShowPredictor\<close>. The dictionary \<^verbatim>\<open>models\<close> keeps its insertion order, which the
  selection of the best model depends on: it is an association list.
\<close>

record 'm NoShowPredictor =
  models :: "(string \<times> 'm model_result) list"
  best_model :: "'m option"
  best_model_name :: "string option"
  preprocessor :: DataPreprocessor

definition NoShowPredictor_init :: "'m NoShowPredictor" where
  "NoShowPredictor_init =
     \<lparr>models = [], best_model = None, best_model_name = None,
      preprocessor = \<lparr>label_encoders = Map.empty\<rparr>\<rparr>"

text \<open>Sequencing of steps that may raise: the first exception ends the computation.\<close>

definition and_then :: "error + 'a \<Rightarrow> ('a \<Rightarrow> error + 'b) \<Rightarrow> error + 'b" where
  "and_then r f = (case r of Inl e \<Rightarrow> Inl e | Inr v \<Rightarrow> f v)"

text \<open>Indexing raises \<^verbatim>\<open>IndexError\<close> out of range.\<close>

definition getitem :: "'a list \<Rightarrow> nat \<Rightarrow> error + 'a" where
  "getitem xs i = (if i < length xs then Inr (xs ! i) else Inl (IndexError ''index out of bounds''))"

text \<open>\<^verbatim>\<open>a[i, j]\<close> and \<^verbatim>\<open>a[:, j]\<close> on a two-dimensional array given by its rows.\<close>

definition getitem2 :: "'a list list \<Rightarrow> nat \<Rightarrow> nat \<Rightarrow> error + 'a" where
  "getitem2 a i j = and_then (getitem a i) (\<lambda>row. getitem row j)"

fun column :: "'a list list \<Rightarrow> nat \<Rightarrow> error + 'a list" where
  "column [] j = Inr []"
| "column (row # rows) j =
     and_then (getitem row j) (\<lambda>v. and_then (column rows j) (\<lambda>vs. Inr (v # vs)))"

text \<open>
  The four entries of the dictionary \<^verbatim>\<open>models\<close> of \<^verbatim>\<open>train_models\<close>, in the order in which
  the dictionary literal lists them (the hyperparameters are those of the source).
\<close>

definition menu :: "(string \<times> estimator) list" where
  "menu =
     [(''Random Forest'', RandomForestClassifier),
      (''Gradient Boosting'', GradientBoostingClassifier),
      (''Logistic Regression'', LogisticRegression),
      (''SVM'', SVC)]"

text \<open>The body of the loop of \<^verbatim>\<open>train_models\<close> for one entry.\<close>

definition fit_and_score ::
  "'m sklearn \<Rightarrow> estimator \<Rightarrow> matrix \<Rightarrow> cell list \<Rightarrow> matrix \<Rightarrow> cell list \<Rightarrow>
     error + 'm model_result" where
  "fit_and_score sk est X_train y_train X_test y_test =
     and_then (fit sk est X_train y_train) (\<lambda>m.
     and_then (predict sk m X_test) (\<lambda>y_pred.
     and_then (predict_proba sk m X_test) (\<lambda>proba.
     and_then (column proba 1) (\<lambda>y_pred_proba.
     and_then (accuracy_score sk y_test y_pred) (\<lambda>acc.
     and_then (precision_score sk y_test y_pred) (\<lambda>prec.
     and_then (recall_score sk y_test y_pred) (\<lambda>rec.
     and_then (f1_score sk y_test y_pred) (\<lambda>f.
     and_then (roc_auc_score sk y_test y_pred_proba) (\<lambda>auc.
       Inr \<lparr>model = m,
            metrics = \<lparr>accuracy = acc, precision = prec, recall = rec, f1 = f, roc_auc = auc\<rparr>,
            predictions = y_pred,
            probabilities = y_pred_proba\<rparr>)))))))))"

text \<open>The loop over the dictionary; \<^verbatim>\<open>results[name] = ...\<close> is an update of the association list.\<close>

fun train_loop ::
  "'m sklearn \<Rightarrow> matrix \<Rightarrow> cell list \<Rightarrow> matrix \<Rightarrow> cell list \<Rightarrow>
     (string \<times> estimator) list \<Rightarrow> (string \<times> 'm model_result) list \<Rightarrow>
     error + (string \<times> 'm model_result) list" where
  "train_loop sk X_train y_train X_test y_test [] results = Inr results"
| "train_loop sk X_train y_train X_test y_test ((name, est) # rest) results =
     (case fit_and_score sk est X_train y_train X_test y_test of
        Inl e \<Rightarrow> Inl e
      | Inr r \<Rightarrow>
          train_loop sk X_train y_train X_test y_test rest (AList.update name r results))"

text \<open>
  Python's \<^verbatim>\<open>max(iterable, key=f)\<close>: the running maximum is replaced only by an item whose
  key is strictly greater, so the first of several maximal items is returned; an empty
  iterable raises \<^verbatim>\<open>ValueError\<close>.
\<close>

fun py_max_from :: "('a \<Rightarrow> rat) \<Rightarrow> 'a \<Rightarrow> 'a list \<Rightarrow> 'a" where
  "py_max_from key best [] = best"
| "py_max_from key best (x # xs) =
     (if key x > key best then py_max_from key x xs else py_max_from key best xs)"

definition py_max :: "('a \<Rightarrow> rat) \<Rightarrow> 'a list \<Rightarrow> error + 'a" where
  "py_max key xs =
     (case xs of
        [] \<Rightarrow> Inl (ValueError ''max() arg is an empty sequence'')
      | x # rest \<Rightarrow> Inr (py_max_from key x rest))"

text \<open>\<^verbatim>\<open>results[x]\<close> for a key of the dictionary.\<close>

definition lookup :: "(string \<times> 'v) list \<Rightarrow> string \<Rightarrow> error + 'v" where
  "lookup d k = (case map_of d k of None \<Rightarrow> Inl (KeyError [k]) | Some v \<Rightarrow> Inr v)"

definition auc_of :: "(string \<times> 'm model_result) list \<Rightarrow> string \<Rightarrow> rat" where
  "auc_of results x = (case map_of results x of None \<Rightarrow> 0 | Some r \<Rightarrow> roc_auc (metrics r))"

text \<open>
  The console. \<^verbatim>\<open>print(text)\<close> either writes the text or raises, and which of the two is
  a parameter of the model. Only the print of a line with a character outside ASCII is
  modelled, since it raises \<^verbatim>\<open>UnicodeEncodeError\<close> on a console whose encoding lacks the
  character; the other prints of the modelled code write ASCII text. \<open>winner_line\<close> is the
  line that \<^verbatim>\<open>train_models\<close> prints last, a line feed and a trophy (four bytes in UTF-8)
  followed by the name of the winner.
\<close>

type_synonym console = "string \<Rightarrow> error option"

definition winner_line :: "string \<Rightarrow> string" where
  "winner_line name =
     [CHR 0x0A, CHR 0xF0, CHR 0x9F, CHR 0x8F, CHR 0x86] @ '' Winner: '' @ name @
     '' performs best!''"

text \<open>
  \<^verbatim>\<open>train_models\<close>: the outcome (an exception or the returned \<^verbatim>\<open>results\<close>) and the
  predictor as the call leaves it. The three fields are assigned after the loop, and the
  winner is printed after the assignments: when that print raises, the call raises with
  the fields assigned.
\<close>

definition train_models ::
  "console \<Rightarrow> 'm sklearn \<Rightarrow> 'm NoShowPredictor \<Rightarrow> matrix \<Rightarrow> cell list \<Rightarrow> matrix \<Rightarrow> cell list \<Rightarrow>
     (error + (string \<times> 'm model_result) list) \<times> 'm NoShowPredictor" where
  "train_models out sk self X_train y_train X_test y_test =
     (case train_loop sk X_train y_train X_test y_test menu [] of
        Inl e \<Rightarrow> (Inl e, self)
      | Inr results \<Rightarrow>
          (case py_max (auc_of results) (map fst results) of
             Inl e \<Rightarrow> (Inl e, self)
           | Inr name \<Rightarrow>
               (case lookup results name of
                  Inl e \<Rightarrow> (Inl e, self)
                | Inr best \<Rightarrow>
                    let self' = self\<lparr>best_model := Some (model best),
                                     best_model_name := Some name,
                                     models := results\<rparr>
                    in (case out (winner_line name) of
                          Some e \<Rightarrow> (Inl e, self')
                        | None \<Rightarrow> (Inr results, self')))))"

text \<open>The value returned by \<^verbatim>\<open>predict_single\<close>.\<close>

record prediction =
  no_show_probability :: rat
  prediction :: int
  risk_level_of :: string

text \<open>
  \<^verbatim>\<open>predict_single(self, patient_data)\<close>. It does not change the predictor: in apply mode
  \<^verbatim>\<open>prepare_features\<close> leaves the encoders as they are.
\<close>

definition predict_single ::
  "'m sklearn \<Rightarrow> 'm NoShowPredictor \<Rightarrow> (string \<rightharpoonup> cell) \<Rightarrow> error + prediction" where
  "predict_single sk self patient_data =
     (case best_model self of
        None \<Rightarrow> Inl (ValueError ''Need to train the model first!'')
      | Some m \<Rightarrow>
          and_then (fst (prepare_features (preprocessor self) (DataFrame_of_dict patient_data) False))
            (\<lambda>(X, _).
          and_then (predict_proba sk m X) (\<lambda>proba.
          and_then (getitem2 proba 0 1) (\<lambda>probability.
          and_then (predict sk m X) (\<lambda>labels.
          and_then (getitem labels 0) (\<lambda>label.
            Inr \<lparr>no_show_probability = probability,
                 prediction = label,
                 risk_level_of = risk_level probability\<rparr>))))))"

text \<open>
  What apply mode does with one gender value, read off \<^verbatim>\<open>prepare_features\<close>: without an
  encoder the fallback mapping (\<open>F\<close> is 0, \<open>M\<close> is 1, anything else 0), with a fitted
  encoder the position among its classes, and no code for a value that is not among them
  or with an encoder that was never fitted. \<open>feature_row\<close> is the one-row feature matrix
  of a record whose gender has the code \<open>code\<close>.
\<close>

definition gender_code :: "DataPreprocessor \<Rightarrow> cell \<Rightarrow> cell option" where
  "gender_code pre g =
     (case label_encoders pre ''Gender'' of
        None \<Rightarrow> Some (if g = Str ''M'' then Num 1 else Num 0)
      | Some None \<Rightarrow> None
      | Some (Some classes) \<Rightarrow>
          if g \<in> set classes then Some (Num (of_nat (index_of classes g))) else None)"

definition feature_row :: "(string \<rightharpoonup> cell) \<Rightarrow> cell \<Rightarrow> matrix" where
  "feature_row patient_data code =
     AList.update ''Gender'' [code] (map (\<lambda>c. (c, [the (patient_data c)])) feature_cols)"

section \<open>The synthetic data generator\<close>

text \<open>
  NumPy's global random generator. Its state is explicit, and the samplers are parameters
  of the model: each takes the state and returns its draws with the next state.
  \<^verbatim>\<open>np.random.seed(s)\<close> replaces the state by one that is determined by \<open>s\<close>.
\<close>

datatype 'a arg = Scalar 'a | Array "'a list"

record 'g np_random =
  np_seed :: "nat \<Rightarrow> 'g"
  np_exponential :: "rat \<Rightarrow> nat \<Rightarrow> 'g \<Rightarrow> rat list \<times> 'g"
  np_choice_str :: "string list \<Rightarrow> nat \<Rightarrow> 'g \<Rightarrow> string list \<times> 'g"
  np_choice_int :: "int list \<Rightarrow> rat list option \<Rightarrow> nat \<Rightarrow> 'g \<Rightarrow> int list \<times> 'g"
  np_binomial :: "nat \<Rightarrow> rat arg \<Rightarrow> nat \<Rightarrow> 'g \<Rightarrow> int list \<times> 'g"
  np_randint :: "int \<Rightarrow> int \<Rightarrow> nat \<Rightarrow> 'g \<Rightarrow> int list \<times> 'g"
  np_randint_scalar :: "int \<Rightarrow> int \<Rightarrow> 'g \<Rightarrow> int \<times> 'g"

definition n_samples :: nat where
  "n_samples = 10000"

definition fsub :: "rat \<Rightarrow> rat \<Rightarrow> rat" where
  "fsub a b = fl (a - b)"

text \<open>\<^verbatim>\<open>astype(int)\<close> on a float truncates towards zero.\<close>

definition float_to_int :: "rat \<Rightarrow> int" where
  "float_to_int x = (if 0 \<le> x then \<lfloor>x\<rfloor> else \<lceil>x\<rceil>)"

text \<open>\<^verbatim>\<open>datetime(2016, 4, 29)\<close>\<close>

definition base_date :: datetime where
  "base_date = \<lparr>ordinal = 736083, hour = 0\<rparr>"

text \<open>The no-show probability of one row, from the lines that combine the effects.\<close>

definition no_show_prob ::
  "int \<Rightarrow> int \<Rightarrow> int \<Rightarrow> int \<Rightarrow> int \<Rightarrow> int \<Rightarrow> int \<Rightarrow> rat" where
  "no_show_prob age sms days hip diab app_weekday schol =
     (let no_show_base_prob = fl (2 / 10);
          age_effect = (if age < 18 then fl (15 / 100)
                        else if age > 65 then fl (- 5 / 100) else 0);
          sms_effect = (if sms = 0 then fl (25 / 100) else fl (- 5 / 100));
          days_effect = np_clip (fmul (float_of_int days) (fl (1 / 100))) 0 (fl (3 / 10));
          health_effect = fmul (float_of_int (int64 (- int64 (hip + diab)))) (fl (5 / 100));
          weekend_effect = (if app_weekday = 5 \<or> app_weekday = 6 then fl (1 / 10) else 0);
          scholarship_effect = (if schol = 1 then fl (8 / 100) else 0)
      in np_clip
           (fadd (fadd (fadd (fadd (fadd (fadd no_show_base_prob age_effect) sms_effect)
              days_effect) health_effect) weekend_effect) scholarship_effect)
           (fl (5 / 100)) (fl (85 / 100)))"

text \<open>
  The list comprehension that draws the scheduling day of each row with one scalar
  \<^verbatim>\<open>randint(-30, 1)\<close> per row.
\<close>

fun scheduled_days :: "'g np_random \<Rightarrow> nat \<Rightarrow> 'g \<Rightarrow> datetime list \<times> 'g" where
  "scheduled_days rng 0 g = ([], g)"
| "scheduled_days rng (Suc k) g =
     (let (d, g1) = np_randint_scalar rng (- 30) 1 g;
          (ds, g2) = scheduled_days rng k g1
      in (timedelta_add base_date d # ds, g2))"

text \<open>
  \<^verbatim>\<open>load_and_clean_data(self, filepath)\<close>: the table (or the \<^verbatim>\<open>ValueError\<close> of pandas and
  NumPy when the columns do not all have \<open>n_samples\<close> entries) and the state in which the
  generator is left. The summary that is printed is not modelled.
\<close>

definition load_and_clean_data ::
  "'g np_random \<Rightarrow> string \<Rightarrow> 'g \<Rightarrow> (error + appointment list) \<times> 'g" where
  "load_and_clean_data rng filepath g =
     (let g0 = np_seed rng 42;
          (ages_f, g1) = np_exponential rng 25 n_samples g0;
          ages = map (\<lambda>x. float_to_int (np_clip x 0 95)) ages_f;
          (genders, g2) = np_choice_str rng [''M'', ''F''] n_samples g1;
          age_factor = map (\<lambda>a. fdiv (float_of_int a) (fl 100)) ages;
          (hipertension, g3) =
            np_binomial rng 1
              (Array (map (\<lambda>f. np_clip (fadd (fmul f (fl (4 / 10))) (fl (1 / 10))) 0 (fl (8 / 10)))
                 age_factor))
              n_samples g2;
          (diabetes, g4) =
            np_binomial rng 1
              (Array (map (\<lambda>f. np_clip (fadd (fmul f (fl (3 / 10))) (fl (5 / 100))) 0 (fl (4 / 10)))
                 age_factor))
              n_samples g3;
          (alcoholism, g5) = np_binomial rng 1 (Scalar (fl (5 / 100))) n_samples g4;
          scholarship_prob =
            map (\<lambda>f. np_clip (fsub (fl (3 / 10)) (fmul f (fl (2 / 10)))) (fl (5 / 100)) (fl (3 / 10)))
              age_factor;
          (scholarship, g6) = np_binomial rng 1 (Array scholarship_prob) n_samples g5;
          (handcap, g7) =
            np_choice_int rng [0, 1, 2, 3, 4]
              (Some [fl (92 / 100), fl (5 / 100), fl (2 / 100), fl (8 / 1000), fl (2 / 1000)])
              n_samples g6;
          (sms_received, g8) = np_binomial rng 1 (Scalar (fl (68 / 100))) n_samples g7;
          (days_f, g9) = np_exponential rng 7 n_samples g8;
          days = map (\<lambda>x. float_to_int (np_clip x 0 179)) days_f;
          (sched_weekday, g10) = np_choice_int rng [0, 1, 2, 3, 4, 5, 6] None n_samples g9;
          (app_weekday, g11) = np_choice_int rng [0, 1, 2, 3, 4, 5, 6] None n_samples g10;
          probs =
            map (\<lambda>i. no_show_prob (ages ! i) (sms_received ! i) (days ! i) (hipertension ! i)
                        (diabetes ! i) (app_weekday ! i) (scholarship ! i))
              [0..<n_samples];
          (no_show, g12) = np_binomial rng 1 (Array probs) n_samples g11;
          (patient_id, g13) = np_randint rng 1000000 9999999 n_samples g12;
          (appointment_id, g14) = np_randint rng 5000000 6000000 n_samples g13;
          (neighbourhood, g15) =
            np_choice_str rng [''JARDIM DA PENHA'', ''MATA DA PRAIA'', ''PONTAL DE CAMBURI'']
              n_samples g14;
          (scheduled, g16) = scheduled_days rng n_samples g15
      in if list_all (\<lambda>l. l = n_samples)
              [length ages, length genders, length hipertension, length diabetes,
               length alcoholism, length scholarship, length handcap, length sms_received,
               length days, length sched_weekday, length app_weekday, length no_show,
               length patient_id, length appointment_id, length neighbourhood]
         then
           (Inr (map (\<lambda>i.
              \<lparr>PatientId = patient_id ! i,
               AppointmentID = appointment_id ! i,
               Gender = genders ! i,
               Age = ages ! i,
               Neighbourhood = neighbourhood ! i,
               Scholarship = scholarship ! i,
               Hipertension = hipertension ! i,
               Diabetes = diabetes ! i,
               Alcoholism = alcoholism ! i,
               Handcap = handcap ! i,
               SMS_received = sms_received ! i,
               days_between = days ! i,
               scheduled_weekday = sched_weekday ! i,
               appointment_weekday = app_weekday ! i,
               No_show = no_show ! i,
               ScheduledDay = scheduled ! i,
               AppointmentDay = timedelta_add (scheduled ! i) (days ! i)\<rparr>)
              [0..<n_samples]), g16)
         else (Inl (ValueError ''All arrays must be of the same length''), g16))"

section \<open>The web application\<close>






text \<open>
  The script of the dashboard page. Before it posts the nine values of the form to
  \<^verbatim>\<open>/predict\<close> it adds five computed fields: both weekdays are set to 1, the weekend
  flag to 0, and the condition count and the risk score are computed in JavaScript, whose
  numbers are binary64 floats (the values of the form are small integers, on which the
  arithmetic of the count is exact).
\<close>

definition js_risk_score :: "int \<Rightarrow> int \<Rightarrow> int \<Rightarrow> int \<Rightarrow> rat" where
  "js_risk_score age sms days schol =
     fadd (fadd (fadd (fadd
       (if age < 18 then fl (3 / 10) else 0)
       (if age > 80 then fl (1 / 10) else 0))
       (fmul (float_of_int (1 - sms)) (fl (4 / 10))))
       (fmul (min (fdiv (float_of_int days) (fl 30)) 1) (fl (3 / 10))))
       (fmul (float_of_int schol) (fl (2 / 10)))"

definition dashboard_payload ::
  "int \<Rightarrow> string \<Rightarrow> int \<Rightarrow> int \<Rightarrow> int \<Rightarrow> int \<Rightarrow> int \<Rightarrow> int \<Rightarrow> int \<Rightarrow> (string \<rightharpoonup> cell)" where
  "dashboard_payload age gender days sms schol hip diab alc hcp =
     map_of
       [(''Age'', Num (of_int age)), (''Gender'', Str gender),
        (''days_between'', Num (of_int days)), (''SMS_received'', Num (of_int sms)),
        (''Scholarship'', Num (of_int schol)), (''Hipertension'', Num (of_int hip)),
        (''Diabetes'', Num (of_int diab)), (''Alcoholism'', Num (of_int alc)),
        (''Handcap'', Num (of_int hcp)),
        (''scheduled_weekday'', Num 1), (''appointment_weekday'', Num 1),
        (''total_conditions'', Num (of_int (hip + diab + alc + (if hcp > 0 then 1 else 0)))),
        (''risk_score'', Num (js_risk_score age sms days schol)),
        (''is_weekend'', Num 0)]"

section \<open>Concrete runs\<close>

text \<open>
  A scripted stand-in for scikit-learn, for running the code on concrete inputs: a fitted
  model is the score written in the script for its estimator (or fitting raises the
  scripted exception); it gives every row that score as the probability of a no-show, and
  the area under the curve that is measured for it is that score.
\<close>

definition nrows :: "matrix \<Rightarrow> nat" where
  "nrows X = (case X of [] \<Rightarrow> 0 | (c, col) # _ \<Rightarrow> length col)"

definition scripted_sklearn :: "(estimator \<Rightarrow> error + rat) \<Rightarrow> rat sklearn" where
  "scripted_sklearn script =
     \<lparr>fit = (\<lambda>est X y. script est),
      predict = (\<lambda>m X. Inr (replicate (nrows X) (if m > 1 / 2 then 1 else 0))),
      predict_proba = (\<lambda>m X. Inr (replicate (nrows X) [1 - m, m])),
      accuracy_score = (\<lambda>y p. Inr (1 / 2)),
      precision_score = (\<lambda>y p. Inr (1 / 2)),
      recall_score = (\<lambda>y p. Inr (1 / 2)),
      f1_score = (\<lambda>y p. Inr (1 / 2)),
      roc_auc_score = (\<lambda>y p. Inr (case p of [] \<Rightarrow> 0 | a # _ \<Rightarrow> a)),
      train_test_split = (\<lambda>X y. case y of None \<Rightarrow> Inl (TypeError ''no labels'')
                                   | Some l \<Rightarrow> Inr (X, X, l, l))\<rparr>"

text \<open>A script with a tie for the best score between the second and the third estimator.\<close>

definition tied_script :: "estimator \<Rightarrow> error + rat" where
  "tied_script est =
     (case est of
        RandomForestClassifier \<Rightarrow> Inr (7 / 10)
      | GradientBoostingClassifier \<Rightarrow> Inr (8 / 10)
      | LogisticRegression \<Rightarrow> Inr (8 / 10)
      | SVC \<Rightarrow> Inr (6 / 10))"


text \<open>
  The record of the scenario as the dashboard posts it, and a record with the eleven raw
  fields only.
\<close>

definition posted_record :: "string \<rightharpoonup> cell" where
  "posted_record =
     map_of
       [(''Age'', Num 10), (''Gender'', Str ''F''), (''days_between'', Num 40),
        (''SMS_received'', Num 0), (''Scholarship'', Num 1), (''Hipertension'', Num 0),
        (''Diabetes'', Num 0), (''Alcoholism'', Num 0), (''Handcap'', Num 0),
        (''scheduled_weekday'', Num 1), (''appointment_weekday'', Num 1),
        (''total_conditions'', Num 0), (''risk_score'', Num (fl (12 / 10))),
        (''is_weekend'', Num 0)]"

definition raw_record :: "string \<rightharpoonup> cell" where
  "raw_record =
     map_of
       [(''Age'', Num 10), (''Gender'', Str ''F''), (''Scholarship'', Num 1),
        (''Hipertension'', Num 0), (''Diabetes'', Num 0), (''Alcoholism'', Num 0),
        (''Handcap'', Num 0), (''SMS_received'', Num 0), (''days_between'', Num 40),
        (''scheduled_weekday'', Num 1), (''appointment_weekday'', Num 1)]"

definition unseen_gender_record :: "string \<rightharpoonup> cell" where
  "unseen_gender_record = posted_record(''Gender'' \<mapsto> Str ''X'')"

text \<open>A frame of two engineered rows, a man and a woman, with its labels.\<close>

definition two_rows :: dataframe where
  "two_rows =
     map_of
       [(''Age'', [Num 10, Num 70]), (''Gender'', [Str ''M'', Str ''F'']),
        (''Scholarship'', [Num 1, Num 0]), (''Hipertension'', [Num 0, Num 1]),
        (''Diabetes'', [Num 0, Num 0]), (''Alcoholism'', [Num 0, Num 0]),
        (''Handcap'', [Num 0, Num 0]), (''SMS_received'', [Num 0, Num 1]),
        (''days_between'', [Num 40, Num 2]), (''scheduled_weekday'', [Num 1, Num 3]),
        (''appointment_weekday'', [Num 1, Num 5]), (''total_conditions'', [Num 0, Num 1]),
        (''risk_score'', [Num (fl (12 / 10)), Num (fl (2 / 100))]),
        (''is_weekend'', [Num 0, Num 1]), (''No-show'', [Num 1, Num 0])]"


text \<open>A feature matrix and labels of two rows, for runs of the trainer alone.\<close>

definition two_row_matrix :: matrix where
  "two_row_matrix = [(''Age'', [Num 10, Num 70]), (''Gender'', [Num 1, Num 0])]"

definition two_row_labels :: "cell list" where
  "two_row_labels = [Num 1, Num 0]"

text \<open>The result that the scripted classifier of score \<open>a\<close> gets on these two rows.\<close>

definition scripted_result :: "rat \<Rightarrow> rat model_result" where
  "scripted_result a =
     \<lparr>model = a,
      metrics = \<lparr>accuracy = 1 / 2, precision = 1 / 2, recall = 1 / 2, f1 = 1 / 2, roc_auc = a\<rparr>,
      predictions = [if a > 1 / 2 then 1 else 0, if a > 1 / 2 then 1 else 0],
      probabilities = [a, a]\<rparr>"

definition tied_results :: "(string \<times> rat model_result) list" where
  "tied_results =
     [(''Random Forest'', scripted_result (7 / 10)),
      (''Gradient Boosting'', scripted_result (8 / 10)),
      (''Logistic Regression'', scripted_result (8 / 10)),
      (''SVM'', scripted_result (6 / 10))]"

text \<open>
  The preprocessor after a fit on the two rows, a predictor that retains the results of the
  tied script with it, and an application that serves this predictor.
\<close>

definition fitted_preprocessor :: DataPreprocessor where
  "fitted_preprocessor =
     snd (prepare_features \<lparr>label_encoders = Map.empty\<rparr> two_rows True)"

definition trained_predictor :: "rat NoShowPredictor" where
  "trained_predictor =
     \<lparr>models = tied_results, best_model = Some (8 / 10),
      best_model_name = Some ''Gradient Boosting'', preprocessor = fitted_preprocessor\<rparr>"


text \<open>
  Two consoles: one that writes every line, and one with an ASCII encoding, on which the
  print of a line with any other character raises.
\<close>

definition utf8_console :: console where
  "utf8_console text = None"


text \<open>The trained predictor with a retained model whose score for every row is \<open>a\<close>.\<close>

definition predictor_scoring :: "rat \<Rightarrow> rat NoShowPredictor" where
  "predictor_scoring a = trained_predictor\<lparr>best_model := Some a\<rparr>"

section \<open>Properties of rounding\<close>

lemma bitlen_nonneg: "0 \<le> bitlen n"
  by (induction n rule: bitlen.induct) (subst bitlen.simps, simp)

lemma bitlen_pos: "0 < n \<Longrightarrow> 0 < bitlen n"
  using bitlen_nonneg [of "n div 2"] by (subst bitlen.simps) simp

lemma bitlen_bounds:
  "0 < n \<Longrightarrow> 2 ^ nat (bitlen n - 1) \<le> n \<and> n < 2 ^ nat (bitlen n)"
proof (induction n rule: bitlen.induct)
  case (1 n)
  show ?case
  proof (cases "n = 1")
    case True
    have "bitlen 1 = 1"
      by (simp add: bitlen.simps)
    with True show ?thesis by simp
  next
    case False
    with "1.prems" have h: "0 < n div 2" by simp
    with "1.IH" "1.prems" have ih: "2 ^ nat (bitlen (n div 2) - 1) \<le> n div 2"
      "n div 2 < 2 ^ nat (bitlen (n div 2))"
      by simp_all
    have bl: "bitlen n = 1 + bitlen (n div 2)"
      using "1.prems" by (subst bitlen.simps) simp
    have p: "0 < bitlen (n div 2)" using h by (rule bitlen_pos)
    have e1: "nat (bitlen n - 1) = Suc (nat (bitlen (n div 2) - 1))"
      using bl p by simp
    have e2: "nat (bitlen n) = Suc (nat (bitlen (n div 2)))"
      using bl p by simp
    have "2 * 2 ^ nat (bitlen (n div 2) - 1) \<le> n"
      using ih(1) by linarith
    moreover have "n < 2 * 2 ^ nat (bitlen (n div 2))"
      using ih(2) by linarith
    ultimately show ?thesis
      by (simp add: e1 e2)
  qed
qed

lemma bitlen_bounds_rat:
  assumes "0 < n"
  shows "2 powi (bitlen n - 1) \<le> (of_int n :: rat)" "(of_int n :: rat) < 2 powi (bitlen n)"
proof -
  from bitlen_bounds [OF assms]
  have a: "2 ^ nat (bitlen n - 1) \<le> n" and b: "n < 2 ^ nat (bitlen n)" by simp_all
  have p: "0 < bitlen n" using assms by (rule bitlen_pos)
  have "(of_int (2 ^ nat (bitlen n - 1)) :: rat) \<le> of_int n"
    using a by (simp only: of_int_le_iff)
  then show "2 powi (bitlen n - 1) \<le> (of_int n :: rat)"
    using p by (simp add: power_int_def)
  have "(of_int n :: rat) < of_int (2 ^ nat (bitlen n))"
    using b by (simp only: of_int_less_iff)
  then show "(of_int n :: rat) < 2 powi (bitlen n)"
    using p by (simp add: power_int_def)
qed

lemma ilog2_bounds:
  assumes "0 < x"
  shows "2 powi (ilog2 x) \<le> x \<and> x < 2 powi (ilog2 x + 1)"
proof -
  obtain a b where q: "quotient_of x = (a, b)" by force
  have b: "0 < b" using q by (rule quotient_of_denom_pos)
  have x: "x = of_int a / of_int b" using q by (rule quotient_of_div)
  have a: "0 < a"
    using assms b unfolding x by (simp add: zero_less_divide_iff)
  define k where "k = bitlen a - bitlen b"
  have br: "(0::rat) < of_int b" using b by simp
  have up: "x < 2 powi (k + 1)"
  proof -
    have "of_int a < (2::rat) powi (bitlen a)" using a by (rule bitlen_bounds_rat)
    also have "\<dots> = 2 powi (k + 1) * 2 powi (bitlen b - 1)"
      by (simp add: k_def power_int_add [symmetric])
    also have "\<dots> \<le> 2 powi (k + 1) * of_int b"
      using bitlen_bounds_rat(1) [OF b] by (intro mult_left_mono) simp_all
    finally show ?thesis
      unfolding x using br by (simp add: pos_divide_less_eq)
  qed
  have lo: "2 powi (k - 1) < x"
  proof -
    have "2 powi (k - 1) * of_int b < (2::rat) powi (k - 1) * 2 powi (bitlen b)"
      using bitlen_bounds_rat(2) [OF b] by (intro mult_strict_left_mono) simp_all
    also have "\<dots> = 2 powi (bitlen a - 1)"
      by (simp add: k_def power_int_add [symmetric])
    also have "\<dots> \<le> of_int a" using a by (rule bitlen_bounds_rat)
    finally show ?thesis
      unfolding x using br by (simp add: pos_less_divide_eq)
  qed
  show ?thesis
  proof (cases "2 powi k \<le> x")
    case True
    then have "ilog2 x = k" by (simp add: ilog2_def q k_def)
    with True up show ?thesis by simp
  next
    case False
    then have "ilog2 x = k - 1" by (simp add: ilog2_def q k_def)
    with False lo show ?thesis by simp
  qed
qed

lemma pow2_less_D: "(2::rat) powi a < 2 powi b \<Longrightarrow> a < b"
proof (rule ccontr)
  assume l: "(2::rat) powi a < 2 powi b" and "\<not> a < b"
  then have "b \<le> a" by simp
  then have "(2::rat) powi b \<le> 2 powi a" by (rule power_int_increasing) simp
  with l show False by simp
qed

lemma ilog2_unique:
  assumes "2 powi e \<le> x" "x < 2 powi (e + 1)"
  shows "ilog2 x = e"
proof -
  have "(0::rat) < 2 powi e" by simp
  with assms have x: "0 < x" by linarith
  note b = ilog2_bounds [OF x]
  have "(2::rat) powi e < 2 powi (ilog2 x + 1)" using assms b by linarith
  then have 1: "e < ilog2 x + 1" by (rule pow2_less_D)
  have "(2::rat) powi (ilog2 x) < 2 powi (e + 1)" using assms b by linarith
  then have 2: "ilog2 x < e + 1" by (rule pow2_less_D)
  from 1 2 show ?thesis by simp
qed

lemma ilog2_mono:
  assumes "0 < x" "x \<le> y"
  shows "ilog2 x \<le> ilog2 y"
proof -
  from assms have y: "0 < y" by simp
  have "2 powi (ilog2 x) \<le> x" using ilog2_bounds [OF assms(1)] by simp
  also have "x \<le> y" by fact
  also have "y < 2 powi (ilog2 y + 1)" using ilog2_bounds [OF y] by simp
  finally have "ilog2 x < ilog2 y + 1" by (rule pow2_less_D)
  then show ?thesis by simp
qed

lemma round_half_even_of_int: "round_half_even (of_int n) = n"
  by (simp add: round_half_even_def)

lemma round_half_even_floor: "\<lfloor>q\<rfloor> \<le> round_half_even q"
  by (simp add: round_half_even_def Let_def)

lemma round_half_even_ceil: "round_half_even q \<le> \<lfloor>q\<rfloor> + 1"
  by (simp add: round_half_even_def Let_def)

lemma round_half_even_mono:
  assumes "p \<le> q"
  shows "round_half_even p \<le> round_half_even q"
proof (cases "\<lfloor>p\<rfloor> = \<lfloor>q\<rfloor>")
  case True
  with assms have "p - of_int \<lfloor>p\<rfloor> \<le> q - of_int \<lfloor>q\<rfloor>" by simp
  with True show ?thesis
    by (simp add: round_half_even_def Let_def)
next
  case False
  from assms have "\<lfloor>p\<rfloor> \<le> \<lfloor>q\<rfloor>" by (rule floor_mono)
  with False have "\<lfloor>p\<rfloor> + 1 \<le> \<lfloor>q\<rfloor>" by simp
  with round_half_even_ceil [of p] round_half_even_floor [of q]
  show ?thesis by linarith
qed

lemma round_half_even_small:
  assumes "0 \<le> q" "q < 1 / 2"
  shows "round_half_even q = 0"
proof -
  from assms have "\<lfloor>q\<rfloor> = 0" by (simp add: floor_eq_iff)
  with assms show ?thesis by (simp add: round_half_even_def)
qed

lemma fl_alt:
  "x \<noteq> 0 \<Longrightarrow> fl x = of_int (round_half_even (x / 2 powi (ulp_exp x))) * 2 powi (ulp_exp x)"
  by (simp add: fl_def)

lemma fl_nonneg: "0 \<le> x \<Longrightarrow> 0 \<le> fl x"
proof (cases "x = 0")
  case True
  then show ?thesis by (simp add: fl_def)
next
  case False
  assume "0 \<le> x"
  then have "0 \<le> x / 2 powi (ulp_exp x)" by simp
  then have "round_half_even 0 \<le> round_half_even (x / 2 powi (ulp_exp x))"
    by (rule round_half_even_mono)
  then have "0 \<le> round_half_even (x / 2 powi (ulp_exp x))"
    using round_half_even_of_int [of 0] by simp
  with False show ?thesis by (simp add: fl_alt)
qed

lemma fl_lower:
  assumes "0 < x" "- 1022 \<le> ilog2 x"
  shows "2 powi (ilog2 x) \<le> fl x"
proof -
  define e where "e = ilog2 x"
  have u: "ulp_exp x = e - 52" using assms by (simp add: ulp_exp_def e_def)
  have "2 powi e \<le> x" using ilog2_bounds [OF assms(1)] by (simp add: e_def)
  then have "2 powi e / 2 powi (e - 52) \<le> x / 2 powi (e - 52)"
    by (simp add: divide_right_mono)
  moreover have "(2::rat) powi e / 2 powi (e - 52) = of_int (2 ^ 52)"
    by (simp add: power_int_diff)
  ultimately have "round_half_even (of_int (2 ^ 52)) \<le> round_half_even (x / 2 powi (e - 52))"
    by (simp only: round_half_even_mono)
  then have "2 ^ 52 \<le> round_half_even (x / 2 powi (e - 52))"
    by (simp only: round_half_even_of_int)
  then have "(of_int (2 ^ 52) :: rat) \<le> of_int (round_half_even (x / 2 powi (e - 52)))"
    by (simp only: of_int_le_iff)
  then have "of_int (2 ^ 52) * 2 powi (e - 52) \<le> of_int (round_half_even (x / 2 powi (e - 52))) * (2::rat) powi (e - 52)"
    by (intro mult_right_mono) simp_all
  moreover have "of_int (2 ^ 52) * 2 powi (e - 52) = (2::rat) powi e"
    by (simp add: power_int_diff)
  moreover have "fl x = of_int (round_half_even (x / 2 powi (e - 52))) * 2 powi (e - 52)"
    using assms by (simp add: fl_alt u)
  ultimately have "2 powi e \<le> fl x" by (simp only:)
  then show ?thesis by (simp only: e_def)
qed

lemma fl_upper:
  assumes "0 < x"
  shows "fl x \<le> 2 powi (ilog2 x + 1)"
proof -
  define e where "e = ilog2 x"
  define m where "m = ulp_exp x"
  have x: "x < 2 powi (e + 1)" using ilog2_bounds [OF assms] by (simp add: e_def)
  have q: "x / 2 powi m < 2 powi (e + 1 - m)"
    using x by (simp add: power_int_diff divide_strict_right_mono)
  have f: "fl x = of_int (round_half_even (x / 2 powi m)) * 2 powi m"
    using assms by (simp add: fl_alt m_def)
  show ?thesis
  proof (cases "0 \<le> e + 1 - m")
    case True
    then have "(2::rat) powi (e + 1 - m) = of_int (2 ^ nat (e + 1 - m))"
      by (simp add: power_int_def)
    with q have "x / 2 powi m \<le> of_int (2 ^ nat (e + 1 - m))" by simp
    then have "round_half_even (x / 2 powi m) \<le> round_half_even (of_int (2 ^ nat (e + 1 - m)))"
      by (rule round_half_even_mono)
    then have "round_half_even (x / 2 powi m) \<le> 2 ^ nat (e + 1 - m)"
      by (simp only: round_half_even_of_int)
    then have "(of_int (round_half_even (x / 2 powi m)) :: rat) \<le> of_int (2 ^ nat (e + 1 - m))"
      by (simp only: of_int_le_iff)
    then have "of_int (round_half_even (x / 2 powi m)) * 2 powi m \<le> of_int (2 ^ nat (e + 1 - m)) * (2::rat) powi m"
      by (intro mult_right_mono) simp_all
    moreover have "of_int (2 ^ nat (e + 1 - m)) * (2::rat) powi m = 2 powi (e + 1)"
    proof -
      have "(of_int (2 ^ nat (e + 1 - m)) :: rat) = 2 powi (e + 1 - m)"
        using True by (simp add: power_int_def)
      moreover have "(2::rat) powi (e + 1 - m) * 2 powi m = 2 powi (e + 1 - m + m)"
        by (rule power_int_add [symmetric]) simp
      ultimately show ?thesis by simp
    qed
    ultimately have "fl x \<le> 2 powi (e + 1)" by (simp only: f)
    then show ?thesis by (simp only: e_def)
  next
    case False
    then have "e + 1 - m \<le> - 1" by simp
    then have "(2::rat) powi (e + 1 - m) \<le> 2 powi (- 1)"
      by (rule power_int_increasing) simp
    moreover have "(2::rat) powi (- 1) = 1 / 2" by (simp add: power_int_minus)
    ultimately have "x / 2 powi m < 1 / 2" using q by linarith
    moreover have "0 \<le> x / 2 powi m" using assms by simp
    ultimately have "round_half_even (x / 2 powi m) = 0" by (simp add: round_half_even_small)
    then show ?thesis by (simp add: f)
  qed
qed

lemma fl_mono_pos:
  assumes "0 < x" "x \<le> y"
  shows "fl x \<le> fl y"
proof -
  from assms have y: "0 < y" by simp
  have e: "ilog2 x \<le> ilog2 y" using assms by (rule ilog2_mono)
  show ?thesis
  proof (cases "ulp_exp x = ulp_exp y")
    case True
    have "x / 2 powi (ulp_exp y) \<le> y / 2 powi (ulp_exp y)"
      using assms by (simp add: divide_right_mono)
    then have "round_half_even (x / 2 powi (ulp_exp y)) \<le> round_half_even (y / 2 powi (ulp_exp y))"
      by (rule round_half_even_mono)
    then have "(of_int (round_half_even (x / 2 powi (ulp_exp y))) :: rat)
        \<le> of_int (round_half_even (y / 2 powi (ulp_exp y)))"
      by (simp only: of_int_le_iff)
    then have "of_int (round_half_even (x / 2 powi (ulp_exp y))) * (2::rat) powi (ulp_exp y)
        \<le> of_int (round_half_even (y / 2 powi (ulp_exp y))) * 2 powi (ulp_exp y)"
      by (intro mult_right_mono) simp_all
    with True assms y show ?thesis by (simp add: fl_alt)
  next
    case False
    with e assms y have lt: "ilog2 x < ilog2 y" and n: "- 1022 \<le> ilog2 y"
      by (auto simp: ulp_exp_def max_def split: if_splits)
    have "fl x \<le> 2 powi (ilog2 x + 1)" using assms(1) by (rule fl_upper)
    also have "\<dots> \<le> 2 powi (ilog2 y)"
      using lt by (intro power_int_increasing) simp_all
    also have "\<dots> \<le> fl y" using y n by (rule fl_lower)
    finally show ?thesis .
  qed
qed

lemma fl_mono_nonneg:
  assumes "0 \<le> x" "x \<le> y"
  shows "fl x \<le> fl y"
proof (cases "x = 0")
  case True
  with assms fl_nonneg [of y] show ?thesis by (simp add: fl_def)
next
  case False
  with assms have "0 < x" by simp
  then show ?thesis using assms(2) by (rule fl_mono_pos)
qed


lemma int64_flag: "n = 0 \<or> n = 1 \<Longrightarrow> int64 n = n"
  by (auto simp: int64_def)

lemma fl_0 [simp]: "fl 0 = 0"
  by (simp add: fl_def)

lemma fl_1 [simp]: "fl 1 = 1"
  by code_simp

lemma fadd_mono:
  "0 \<le> a \<Longrightarrow> a \<le> a' \<Longrightarrow> 0 \<le> b \<Longrightarrow> b \<le> b' \<Longrightarrow> fadd a b \<le> fadd a' b'"
  unfolding fadd_def by (rule fl_mono_nonneg) simp_all

lemma fadd_nonneg: "0 \<le> a \<Longrightarrow> 0 \<le> b \<Longrightarrow> 0 \<le> fadd a b"
  unfolding fadd_def by (rule fl_nonneg) simp

lemma fmul_nonneg: "0 \<le> a \<Longrightarrow> 0 \<le> b \<Longrightarrow> 0 \<le> fmul a b"
  unfolding fmul_def by (rule fl_nonneg) simp

lemma fmul_commute: "fmul a b = fmul b a"
  by (simp add: fmul_def mult.commute)



lemma fl_weights:
  "fl (fl (3 / 10)) = fl (3 / 10)" "fl (fl (1 / 10)) = fl (1 / 10)"
  "fl (fl (4 / 10)) = fl (4 / 10)" "fl (fl (2 / 10)) = fl (2 / 10)"
  by code_simp+

lemma fl_weights_pos:
  "0 \<le> fl (3 / 10)" "0 \<le> fl (1 / 10)" "0 \<le> fl (4 / 10)" "0 \<le> fl (2 / 10)" "0 \<le> fl 30"
  by (simp_all add: fl_nonneg)

text \<open>A weight times an indicator is the weight or zero.\<close>

lemma fmul_indicator:
  "fl w = w \<Longrightarrow> fmul (float_of_int (astype_int b)) w = (if b then w else 0)"
  by (simp add: fmul_def float_of_int_def astype_int_def)

lemma fmul_flag:
  "fl w = w \<Longrightarrow> n = 0 \<or> n = 1 \<Longrightarrow> fmul (float_of_int n) w = (if n = 1 then w else 0)"
  by (auto simp: fmul_def float_of_int_def)

lemma fmul_clip_le:
  assumes "fl w = w" "0 \<le> w" "0 \<le> c" "c \<le> 1"
  shows "0 \<le> fmul c w \<and> fmul c w \<le> w"
proof -
  have "c * w \<le> w" using assms by (simp add: mult_left_le_one_le)
  moreover have "0 \<le> c * w" using assms by simp
  ultimately have "fl (c * w) \<le> fl w" by (intro fl_mono_nonneg)
  with assms fmul_nonneg [of c w] show ?thesis by (simp add: fmul_def)
qed

lemma sums_of_weights:
  "fadd (fl (3 / 10)) 0 = fl (3 / 10)"
  "fadd 0 (fl (1 / 10)) = fl (1 / 10)"
  "fl (1 / 10) \<le> fl (3 / 10)"
  "fadd (fadd (fadd (fl (3 / 10)) (fl (4 / 10))) (fl (3 / 10))) (fl (2 / 10)) = fl (12 / 10)"
  "fl (12 / 10) \<le> 12 / 10"
  by code_simp+






lemma pd_cut_age_bins:
  "age_group a =
     (if 0 < a \<and> a \<le> 18 then Some ''child''
      else if 18 < a \<and> a \<le> 35 then Some ''young_adult''
      else if 35 < a \<and> a \<le> 50 then Some ''adult''
      else if 50 < a \<and> a \<le> 65 then Some ''middle_aged''
      else if 65 < a \<and> a \<le> 100 then Some ''senior'' else None)"
  by (simp add: age_group_def)







lemma age_terms_bound:
  "0 \<le> fadd (fmul (float_of_int (astype_int (a < 18))) (fl (3 / 10)))
            (fmul (float_of_int (astype_int (a > (80::int)))) (fl (1 / 10))) \<and>
   fadd (fmul (float_of_int (astype_int (a < 18))) (fl (3 / 10)))
        (fmul (float_of_int (astype_int (a > 80))) (fl (1 / 10))) \<le> fl (3 / 10)"
proof -
  consider "a < 18" | "80 < a" | "\<not> a < 18 \<and> \<not> 80 < a" by linarith
  then show ?thesis
  proof cases
    case 1
    then have "\<not> 80 < a" by simp
    with 1 show ?thesis
      by (simp add: fmul_indicator fl_weights sums_of_weights fl_weights_pos)
  next
    case 2
    then have "\<not> a < 18" by simp
    with 2 show ?thesis
      by (simp add: fmul_indicator fl_weights sums_of_weights fl_weights_pos)
  next
    case 3
    then show ?thesis
      by (simp add: fmul_indicator fl_weights fadd_def fl_weights_pos)
  qed
qed

lemma flag_term_bound:
  assumes "fl w = w" "0 \<le> w" "n = 0 \<or> n = 1"
  shows "0 \<le> fmul (float_of_int n) w \<and> fmul (float_of_int n) w \<le> w"
  using assms by (auto simp: fmul_flag)

lemma clip_range: "0 \<le> np_clip x 0 1 \<and> np_clip x 0 1 \<le> 1"
  by (simp add: np_clip_def)

text \<open>
  C10. With both flags in \<open>{0, 1}\<close> and a non-negative days_between the risk score lies
  between 0 and the float 1.2 (which is just below the rational 12/10): the two age terms
  exclude each other, every term is non-negative, and rounding is monotone, so the score
  is at most the float sum \<open>0.3 + 0.4 + 0.3 + 0.2\<close>.
\<close>

theorem C10_risk_score_range:
  assumes "SMS_received r \<in> {0, 1}" and "Scholarship r \<in> {0, 1}" and "0 \<le> days_between r"
  shows "0 \<le> risk_score r \<and> risk_score r \<le> fl (12 / 10) \<and> risk_score r \<le> 12 / 10"
proof -
  define t12 where "t12 =
    fadd (fmul (float_of_int (astype_int (Age r < 18))) (fl (3 / 10)))
         (fmul (float_of_int (astype_int (Age r > 80))) (fl (1 / 10)))"
  define t3 where "t3 = fmul (float_of_int (int64 (1 - SMS_received r))) (fl (4 / 10))"
  define t4 where
    "t4 = fmul (np_clip (fdiv (float_of_int (days_between r)) (fl 30)) 0 1) (fl (3 / 10))"
  define t5 where "t5 = fmul (float_of_int (Scholarship r)) (fl (2 / 10))"
  have rs: "risk_score r = fadd (fadd (fadd t12 t3) t4) t5"
    by (simp only: risk_score_def t12_def t3_def t4_def t5_def)
  have b12: "0 \<le> t12" "t12 \<le> fl (3 / 10)"
    using age_terms_bound [of "Age r"] by (simp_all only: t12_def)
  have "1 - SMS_received r = 0 \<or> 1 - SMS_received r = 1"
    using assms(1) by auto
  then have "int64 (1 - SMS_received r) = 0 \<or> int64 (1 - SMS_received r) = 1"
    using int64_flag [of "1 - SMS_received r"] by auto
  then have b3: "0 \<le> t3" "t3 \<le> fl (4 / 10)"
    using flag_term_bound [of "fl (4 / 10)" "int64 (1 - SMS_received r)"]
    by (simp_all only: t3_def fl_weights fl_weights_pos)
  have b4: "0 \<le> t4" "t4 \<le> fl (3 / 10)"
    using fmul_clip_le [of "fl (3 / 10)" "np_clip (fdiv (float_of_int (days_between r)) (fl 30)) 0 1"]
      clip_range [of "fdiv (float_of_int (days_between r)) (fl 30)"]
    by (simp_all only: t4_def fl_weights fl_weights_pos)
  have "Scholarship r = 0 \<or> Scholarship r = 1"
    using assms(2) by auto
  then have b5: "0 \<le> t5" "t5 \<le> fl (2 / 10)"
    using flag_term_bound [of "fl (2 / 10)" "Scholarship r"]
    by (simp_all only: t5_def fl_weights fl_weights_pos)
  have n1: "0 \<le> fadd t12 t3"
    by (rule fadd_nonneg [OF b12(1) b3(1)])
  have n2: "0 \<le> fadd (fadd t12 t3) t4"
    by (rule fadd_nonneg [OF n1 b4(1)])
  have lo: "0 \<le> fadd (fadd (fadd t12 t3) t4) t5"
    by (rule fadd_nonneg [OF n2 b5(1)])
  have u1: "fadd t12 t3 \<le> fadd (fl (3 / 10)) (fl (4 / 10))"
    by (rule fadd_mono [OF b12 b3])
  have u2: "fadd (fadd t12 t3) t4 \<le> fadd (fadd (fl (3 / 10)) (fl (4 / 10))) (fl (3 / 10))"
    by (rule fadd_mono [OF n1 u1 b4])
  have "fadd (fadd (fadd t12 t3) t4) t5
      \<le> fadd (fadd (fadd (fl (3 / 10)) (fl (4 / 10))) (fl (3 / 10))) (fl (2 / 10))"
    by (rule fadd_mono [OF n2 u2 b5])
  then have hi: "fadd (fadd (fadd t12 t3) t4) t5 \<le> fl (12 / 10)"
    by (simp only: sums_of_weights)
  from hi sums_of_weights(5) have "fadd (fadd (fadd t12 t3) t4) t5 \<le> 12 / 10"
    by (rule order_trans)
  with lo hi show ?thesis by (simp only: rs simp_thms)
qed

theorem C10_risk_score_range_witness:
  "SMS_received scenario_appointment \<in> {0, 1} \<and> Scholarship scenario_appointment \<in> {0, 1} \<and>
   0 \<le> days_between scenario_appointment \<and>
   0 \<le> risk_score scenario_appointment \<and> risk_score scenario_appointment \<le> fl (12 / 10) \<and>
   risk_score scenario_appointment \<le> 12 / 10"
proof -
  have a: "SMS_received scenario_appointment \<in> {0, 1}"
    and b: "Scholarship scenario_appointment \<in> {0, 1}"
    and c: "0 \<le> days_between scenario_appointment"
    by (simp_all add: scenario_appointment_def)
  from a b c C10_risk_score_range [OF a b c] show ?thesis by simp
qed

lemma tier_thresholds:
  "fl (6 / 10) \<le> 6 / 10" "fl (3 / 10) \<le> 3 / 10" "0 \<le> fl (6 / 10)" "0 \<le> fl (3 / 10)"
  "fl (3 / 10) \<le> fl (6 / 10)"
  by code_simp+

text \<open>No float lies strictly between the float literal of a threshold and the threshold.\<close>

lemma float_above_literal:
  assumes "is_float p" "fl c < p" "0 \<le> fl c"
  shows "c < p"
proof (rule ccontr)
  assume "\<not> c < p"
  then have pc: "p \<le> c" by simp
  from assms have "0 \<le> p" by simp
  then have "fl p \<le> fl c" using pc by (rule fl_mono_nonneg)
  with assms show False by (simp add: is_float_def)
qed

text \<open>
  The tier of a float: High above 0.6, Medium above 0.3, Low otherwise, with the thresholds
  read as decimals or as float literals alike.
\<close>

lemma risk_level_tiers:
  assumes "is_float p"
  shows "(risk_level p = ''High'' \<longleftrightarrow> 6 / 10 < p) \<and>
         (risk_level p = ''Medium'' \<longleftrightarrow> 3 / 10 < p \<and> p \<le> 6 / 10) \<and>
         (risk_level p = ''Low'' \<longleftrightarrow> p \<le> 3 / 10)"
proof -
  have h: "fl (6 / 10) < p \<longleftrightarrow> 6 / 10 < p"
    using float_above_literal [OF assms, of "6 / 10"] tier_thresholds by auto
  have m: "fl (3 / 10) < p \<longleftrightarrow> 3 / 10 < p"
    using float_above_literal [OF assms, of "3 / 10"] tier_thresholds by auto
  show ?thesis
    unfolding risk_level_def h m by auto
qed

lemma risk_level_boundaries:
  "risk_level (fl (30 / 100)) = ''Low''"
  "risk_level (fl (30001 / 100000)) = ''Medium''"
  "risk_level (fl (60 / 100)) = ''Medium''"
  "risk_level (fl (60001 / 100000)) = ''High''"
  by code_simp+

section \<open>The single-record predictor and the encoder\<close>

lemma and_then_Inr [simp]: "and_then (Inr v) f = f v"
  by (simp add: and_then_def)

lemma and_then_Inl [simp]: "and_then (Inl e) f = Inl e"
  by (simp add: and_then_def)

lemma no_missing_column:
  "list_all (\<lambda>c. df c \<noteq> None) cs \<Longrightarrow> filter (\<lambda>c. df c = None) cs = []"
  by (induction cs) auto

lemma missing_column:
  "\<not> list_all (\<lambda>c. df c \<noteq> None) cs \<Longrightarrow> \<exists>c cs'. filter (\<lambda>c. df c = None) cs = c # cs'"
  by (induction cs) auto

lemma gender_fallback:
  "fillna (Num 0) (Series_map [(Str ''F'', Num 0), (Str ''M'', Num 1)] s) =
     map (\<lambda>g. if g = Str ''M'' then Num 1 else Num 0) s"
  by (simp add: fillna_def Series_map_def)

lemma DataFrame_of_dict_missing:
  "(DataFrame_of_dict d c = None) = (d c = None)"
  by (simp add: DataFrame_of_dict_def)

text \<open>
  C8. Without a retained best model \<^verbatim>\<open>predict_single\<close> raises its "train the model first"
  error for every record and every classifier interface: the answer does not depend on the
  record, so nothing is computed from it.
\<close>

theorem C8_untrained_model_error:
  assumes "best_model self = None"
  shows "predict_single sk self patient_data = Inl (ValueError ''Need to train the model first!'')"
  using assms by (simp add: predict_single_def)

theorem C8_untrained_model_error_witness:
  "best_model (NoShowPredictor_init :: rat NoShowPredictor) = None \<and>
   predict_single (scripted_sklearn tied_script) NoShowPredictor_init raw_record =
     Inl (ValueError ''Need to train the model first!'') \<and>
   fst (prepare_features (preprocessor (NoShowPredictor_init :: rat NoShowPredictor))
          (DataFrame_of_dict raw_record) False) =
     Inl (KeyError [''total_conditions'', ''risk_score'', ''is_weekend''])"
proof -
  have n: "best_model (NoShowPredictor_init :: rat NoShowPredictor) = None"
    by (simp add: NoShowPredictor_init_def)
  have k: "fst (prepare_features (preprocessor (NoShowPredictor_init :: rat NoShowPredictor))
          (DataFrame_of_dict raw_record) False) =
     Inl (KeyError [''total_conditions'', ''risk_score'', ''is_weekend''])"
    by code_simp
  from n k C8_untrained_model_error [OF n, of "scripted_sklearn tied_script" raw_record]
  show ?thesis by simp
qed

text \<open>
  C2, counterexample. After a fit on a frame whose genders are \<open>M\<close> and \<open>F\<close>, apply mode
  raises \<^verbatim>\<open>ValueError\<close> on a record whose gender is \<open>X\<close>, and so does the prediction for
  that record.
\<close>

theorem C2_unseen_gender_raises:
  "label_encoders fitted_preprocessor ''Gender'' = Some (Some [Str ''F'', Str ''M'']) \<and>
   fst (prepare_features fitted_preprocessor (DataFrame_of_dict unseen_gender_record) False) =
     Inl (ValueError ''y contains previously unseen labels'') \<and>
   predict_single (scripted_sklearn tied_script) trained_predictor unseen_gender_record =
     Inl (ValueError ''y contains previously unseen labels'')"
  by code_simp

lemma unseen_gender_prediction:
  assumes "best_model P = Some m"
    and "list_all (\<lambda>c. patient_data c \<noteq> None) feature_cols"
    and "label_encoders (preprocessor P) ''Gender'' = Some (Some classes)"
    and "the (patient_data ''Gender'') \<notin> set classes"
  shows "predict_single sk P patient_data =
           Inl (ValueError ''y contains previously unseen labels'')"
proof -
  have cols: "list_all (\<lambda>c. DataFrame_of_dict patient_data c \<noteq> None) feature_cols"
    using assms(2) by (simp add: DataFrame_of_dict_missing)
  have "''Gender'' \<in> set feature_cols" by (simp add: feature_cols_def)
  with assms(2) have "patient_data ''Gender'' \<noteq> None"
    by (auto simp: list_all_iff)
  then obtain g where g: "patient_data ''Gender'' = Some g" by auto
  have G: "the (DataFrame_of_dict patient_data ''Gender'') = [g]"
    using g by (simp add: DataFrame_of_dict_def)
  have "fst (prepare_features (preprocessor P) (DataFrame_of_dict patient_data) False) =
      Inl (ValueError ''y contains previously unseen labels'')"
    using assms(3,4) no_missing_column [OF cols]
    by (simp add: prepare_features_def G g LabelEncoder_transform_def)
  with assms(1) show ?thesis
    by (simp add: predict_single_def)
qed

text \<open>
  C2, amended. On a frame with all feature columns, apply mode before any fit (no gender
  encoder stored) never raises and codes the gender by the fallback mapping: \<open>M\<close> is 1,
  \<open>F\<close> and every other value are 0. Once an encoder is fitted, a gender that is not among
  its classes raises \<^verbatim>\<open>ValueError\<close>. Apply mode leaves the encoders as they are. With a
  retained model, the prediction for a record with all feature columns whose gender is not
  among the classes of the fitted encoder raises that \<^verbatim>\<open>ValueError\<close>.
\<close>

theorem C2_encoder_apply_mode:
  assumes "list_all (\<lambda>c. df c \<noteq> None) feature_cols"
  shows "(label_encoders self ''Gender'' = None \<longrightarrow>
            prepare_features self df False =
              (Inr (AList.update ''Gender''
                      (map (\<lambda>g. if g = Str ''M'' then Num 1 else Num 0) (the (df ''Gender'')))
                      (map (\<lambda>c. (c, the (df c))) feature_cols),
                    df ''No-show''),
               self)) \<and>
         (label_encoders self ''Gender'' = Some (Some classes) \<and>
          list_ex (\<lambda>g. g \<notin> set classes) (the (df ''Gender'')) \<longrightarrow>
            prepare_features self df False =
              (Inl (ValueError ''y contains previously unseen labels''), self)) \<and>
         (best_model P = Some m \<and>
          list_all (\<lambda>c. patient_data c \<noteq> None) feature_cols \<and>
          label_encoders (preprocessor P) ''Gender'' = Some (Some classes') \<and>
          the (patient_data ''Gender'') \<notin> set classes' \<longrightarrow>
            predict_single sk P patient_data =
              Inl (ValueError ''y contains previously unseen labels''))"
proof (intro conjI)
  show "label_encoders self ''Gender'' = None \<longrightarrow>
            prepare_features self df False =
              (Inr (AList.update ''Gender''
                      (map (\<lambda>g. if g = Str ''M'' then Num 1 else Num 0) (the (df ''Gender'')))
                      (map (\<lambda>c. (c, the (df c))) feature_cols),
                    df ''No-show''),
               self)"
    using no_missing_column [OF assms]
    by (simp add: prepare_features_def gender_fallback)
  show "label_encoders self ''Gender'' = Some (Some classes) \<and>
          list_ex (\<lambda>g. g \<notin> set classes) (the (df ''Gender'')) \<longrightarrow>
            prepare_features self df False =
              (Inl (ValueError ''y contains previously unseen labels''), self)"
    using no_missing_column [OF assms]
    by (simp add: prepare_features_def LabelEncoder_transform_def)
  show "best_model P = Some m \<and>
          list_all (\<lambda>c. patient_data c \<noteq> None) feature_cols \<and>
          label_encoders (preprocessor P) ''Gender'' = Some (Some classes') \<and>
          the (patient_data ''Gender'') \<notin> set classes' \<longrightarrow>
            predict_single sk P patient_data =
              Inl (ValueError ''y contains previously unseen labels'')"
    using unseen_gender_prediction [of P m patient_data classes' sk] by blast
qed

theorem C2_encoder_apply_mode_witness:
  "list_all (\<lambda>c. DataFrame_of_dict unseen_gender_record c \<noteq> None) feature_cols \<and>
   label_encoders \<lparr>label_encoders = Map.empty\<rparr> ''Gender'' = None \<and>
   fst (prepare_features \<lparr>label_encoders = Map.empty\<rparr>
          (DataFrame_of_dict unseen_gender_record) False) =
     Inr (AList.update ''Gender'' [Num 0]
            (map (\<lambda>c. (c, the (DataFrame_of_dict unseen_gender_record c))) feature_cols),
          None) \<and>
   label_encoders fitted_preprocessor ''Gender'' = Some (Some [Str ''F'', Str ''M'']) \<and>
   fst (prepare_features fitted_preprocessor (DataFrame_of_dict unseen_gender_record) False) =
     Inl (ValueError ''y contains previously unseen labels'') \<and>
   best_model trained_predictor = Some (8 / 10) \<and>
   predict_single (scripted_sklearn tied_script) trained_predictor unseen_gender_record =
     Inl (ValueError ''y contains previously unseen labels'')"
proof -
  have c: "list_all (\<lambda>c. DataFrame_of_dict unseen_gender_record c \<noteq> None) feature_cols"
    by code_simp
  have c': "list_all (\<lambda>c. unseen_gender_record c \<noteq> None) feature_cols"
    by code_simp
  have g: "the (DataFrame_of_dict unseen_gender_record ''Gender'') = [Str ''X'']"
    and n: "DataFrame_of_dict unseen_gender_record ''No-show'' = None"
    and g': "the (unseen_gender_record ''Gender'') = Str ''X''"
    by code_simp+
  have f: "label_encoders fitted_preprocessor ''Gender'' = Some (Some [Str ''F'', Str ''M''])"
    by code_simp
  have f': "label_encoders (preprocessor trained_predictor) ''Gender'' =
      Some (Some [Str ''F'', Str ''M''])"
    using f by (simp add: trained_predictor_def)
  have t: "best_model trained_predictor = Some (8 / 10)"
    by (simp add: trained_predictor_def)
  have e: "label_encoders \<lparr>label_encoders = Map.empty\<rparr> ''Gender'' = None"
    by simp
  have a: "fst (prepare_features \<lparr>label_encoders = Map.empty\<rparr>
          (DataFrame_of_dict unseen_gender_record) False) =
     Inr (AList.update ''Gender'' [Num 0]
            (map (\<lambda>c. (c, the (DataFrame_of_dict unseen_gender_record c))) feature_cols),
          None)"
    using C2_encoder_apply_mode [where self = "\<lparr>label_encoders = Map.empty\<rparr>",
      OF c, THEN conjunct1]
    by (simp add: g n)
  have b: "fst (prepare_features fitted_preprocessor
          (DataFrame_of_dict unseen_gender_record) False) =
     Inl (ValueError ''y contains previously unseen labels'')"
    using C2_encoder_apply_mode [where self = fitted_preprocessor
      and classes = "[Str ''F'', Str ''M'']", OF c, THEN conjunct2, THEN conjunct1]
    by (simp add: g f)
  have p: "predict_single (scripted_sklearn tied_script) trained_predictor unseen_gender_record =
     Inl (ValueError ''y contains previously unseen labels'')"
    using C2_encoder_apply_mode [where P = trained_predictor and m = "8 / 10"
        and patient_data = unseen_gender_record and classes' = "[Str ''F'', Str ''M'']"
        and sk = "scripted_sklearn tied_script", OF c, THEN conjunct2, THEN conjunct2]
      t c' f'
    by (simp add: g')
  show ?thesis
    by (intro conjI c e a f b t p)
qed

lemma apply_mode_outcome:
  assumes "list_all (\<lambda>c. patient_data c \<noteq> None) feature_cols"
    and "gender_code pre (the (patient_data ''Gender'')) = Some code"
  shows "fst (prepare_features pre (DataFrame_of_dict patient_data) False) =
           Inr (feature_row patient_data code, None) \<or>
         (\<exists>y. fst (prepare_features pre (DataFrame_of_dict patient_data) False) =
           Inr (feature_row patient_data code, Some y))"
proof -
  have cols: "list_all (\<lambda>c. DataFrame_of_dict patient_data c \<noteq> None) feature_cols"
    using assms(1) by (simp add: DataFrame_of_dict_missing)
  have "''Gender'' \<in> set feature_cols" by (simp add: feature_cols_def)
  with assms(1) have "patient_data ''Gender'' \<noteq> None"
    by (auto simp: list_all_iff)
  then obtain g where g: "patient_data ''Gender'' = Some g" by auto
  have X: "map (\<lambda>c. (c, the (DataFrame_of_dict patient_data c))) feature_cols =
      map (\<lambda>c. (c, [the (patient_data c)])) feature_cols"
    using assms(1) by (auto simp: list_all_iff DataFrame_of_dict_def)
  have G: "the (DataFrame_of_dict patient_data ''Gender'') = [g]"
    using g by (simp add: DataFrame_of_dict_def)
  show ?thesis
    using assms(2) no_missing_column [OF cols]
    by (cases "DataFrame_of_dict patient_data ''No-show''")
       (auto simp: prepare_features_def X G g gender_code_def feature_row_def gender_fallback
          LabelEncoder_transform_def split: option.splits if_splits)
qed

text \<open>
  The record that the dashboard posts has all fourteen feature columns, and the risk score
  its script computes is the formula of the specification, with no lower clip.
\<close>

lemma dashboard_payload_complete:
  "list_all (\<lambda>c. dashboard_payload age gender days sms schol hip diab alc hcp c \<noteq> None)
     feature_cols"
  by (simp add: dashboard_payload_def feature_cols_def)

lemma js_risk_score_is_spec_risk:
  "js_risk_score age sms days schol = spec_risk age sms days schol"
proof -
  have a: "fmul (fl (3 / 10)) (float_of_int (astype_int (age < 18))) =
      (if age < 18 then fl (3 / 10) else 0)"
    using fmul_indicator [of "fl (3 / 10)" "age < 18"]
    by (simp only: fmul_commute [of "fl (3 / 10)"] fl_weights)
  have b: "fmul (fl (1 / 10)) (float_of_int (astype_int (age > 80))) =
      (if age > 80 then fl (1 / 10) else 0)"
    using fmul_indicator [of "fl (1 / 10)" "age > 80"]
    by (simp only: fmul_commute [of "fl (1 / 10)"] fl_weights)
  show ?thesis
    unfolding js_risk_score_def spec_risk_def a b
    by (simp only: fmul_commute)
qed

lemma dashboard_posts_scenario:
  "dashboard_payload 10 ''F'' 40 0 1 0 0 0 0 = posted_record"
proof -
  have "js_risk_score 10 0 40 1 = fl (12 / 10)"
    by code_simp
  then show ?thesis
    by (simp add: dashboard_payload_def posted_record_def)
qed

text \<open>
  C3, counterexample. With a trained predictor, the record of the scenario with its raw
  fields only is rejected: selecting the feature columns raises \<^verbatim>\<open>KeyError\<close> for the
  three engineered columns, which \<^verbatim>\<open>predict_single\<close> never computes.
\<close>

theorem C3_raw_record_rejected:
  "best_model trained_predictor = Some (8 / 10) \<and>
   predict_single (scripted_sklearn tied_script) trained_predictor raw_record =
     Inl (KeyError [''total_conditions'', ''risk_score'', ''is_weekend''])"
  by code_simp

text \<open>
  C3, amended. With a retained best model, \<^verbatim>\<open>predict_single\<close> does no feature engineering:
  a record that lacks one of the fourteen feature columns (the dashboard's script computes
  total_conditions, risk_score and is_weekend before it posts the record) fails with
  \<^verbatim>\<open>KeyError\<close> for the missing columns. On a record with all fourteen, whose gender the
  encoder can code in apply mode, and for which the model answers, it returns the model's
  probability of the no-show class for the record, the model's label, and the tier of that
  probability, one of High, Medium and Low.
\<close>

theorem C3_predict_single_outcome:
  assumes "best_model self = Some m"
  shows "(\<not> list_all (\<lambda>c. patient_data c \<noteq> None) feature_cols \<longrightarrow>
            predict_single sk self patient_data =
              Inl (KeyError (filter (\<lambda>c. patient_data c = None) feature_cols))) \<and>
         (list_all (\<lambda>c. patient_data c \<noteq> None) feature_cols \<and>
          gender_code (preprocessor self) (the (patient_data ''Gender'')) = Some code \<and>
          predict_proba sk m (feature_row patient_data code) = Inr proba \<and>
          getitem2 proba 0 1 = Inr p \<and>
          predict sk m (feature_row patient_data code) = Inr labels \<and>
          getitem labels 0 = Inr label \<longrightarrow>
            predict_single sk self patient_data =
              Inr \<lparr>no_show_probability = p, prediction = label, risk_level_of = risk_level p\<rparr> \<and>
            risk_level p \<in> {''High'', ''Medium'', ''Low''})"
proof (intro conjI impI)
  assume "\<not> list_all (\<lambda>c. patient_data c \<noteq> None) feature_cols"
  then have "\<not> list_all (\<lambda>c. DataFrame_of_dict patient_data c \<noteq> None) feature_cols"
    by (simp add: DataFrame_of_dict_missing)
  from missing_column [OF this] obtain c cs where
    "filter (\<lambda>c. DataFrame_of_dict patient_data c = None) feature_cols = c # cs" by blast
  then have "fst (prepare_features (preprocessor self) (DataFrame_of_dict patient_data) False) =
      Inl (KeyError (filter (\<lambda>c. DataFrame_of_dict patient_data c = None) feature_cols))"
    by (simp add: prepare_features_def)
  then show "predict_single sk self patient_data =
      Inl (KeyError (filter (\<lambda>c. patient_data c = None) feature_cols))"
    using assms by (simp add: predict_single_def DataFrame_of_dict_missing)
next
  assume h: "list_all (\<lambda>c. patient_data c \<noteq> None) feature_cols \<and>
          gender_code (preprocessor self) (the (patient_data ''Gender'')) = Some code \<and>
          predict_proba sk m (feature_row patient_data code) = Inr proba \<and>
          getitem2 proba 0 1 = Inr p \<and>
          predict sk m (feature_row patient_data code) = Inr labels \<and>
          getitem labels 0 = Inr label"
  from h apply_mode_outcome [of patient_data "preprocessor self" code]
  have "fst (prepare_features (preprocessor self) (DataFrame_of_dict patient_data) False) =
           Inr (feature_row patient_data code, None) \<or>
         (\<exists>y. fst (prepare_features (preprocessor self) (DataFrame_of_dict patient_data) False) =
           Inr (feature_row patient_data code, Some y))"
    by blast
  then show "predict_single sk self patient_data =
      Inr \<lparr>no_show_probability = p, prediction = label, risk_level_of = risk_level p\<rparr>"
    using assms h by (auto simp: predict_single_def)
  show "risk_level p \<in> {''High'', ''Medium'', ''Low''}"
    by (simp add: risk_level_def)
qed

theorem C3_predict_single_outcome_witness:
  "best_model trained_predictor = Some (8 / 10) \<and>
   list_all (\<lambda>c. posted_record c \<noteq> None) feature_cols \<and>
   predict_single (scripted_sklearn tied_script) trained_predictor posted_record =
     Inr \<lparr>no_show_probability = 8 / 10, prediction = 1, risk_level_of = ''High''\<rparr> \<and>
   \<not> list_all (\<lambda>c. raw_record c \<noteq> None) feature_cols \<and>
   predict_single (scripted_sklearn tied_script) trained_predictor raw_record =
     Inl (KeyError [''total_conditions'', ''risk_score'', ''is_weekend''])"
proof -
  have t: "best_model trained_predictor = Some (8 / 10)"
    by (simp add: trained_predictor_def)
  have c: "list_all (\<lambda>c. posted_record c \<noteq> None) feature_cols"
    by code_simp
  have g: "gender_code (preprocessor trained_predictor) (the (posted_record ''Gender'')) =
      Some (Num 0)"
    by code_simp
  have pp: "predict_proba (scripted_sklearn tied_script) (8 / 10) (feature_row posted_record (Num 0)) =
      Inr [[2 / 10, 8 / 10]]"
    by code_simp
  have pr: "predict (scripted_sklearn tied_script) (8 / 10) (feature_row posted_record (Num 0)) =
      Inr [1]"
    by code_simp
  have i2: "getitem2 [[2 / 10, 8 / 10 :: rat]] 0 1 = Inr (8 / 10)"
    by (simp add: getitem2_def getitem_def)
  have i1: "getitem [1 :: int] 0 = Inr 1"
    by (simp add: getitem_def)
  have r: "risk_level (8 / 10) = ''High''"
    by code_simp
  have n: "\<not> list_all (\<lambda>c. raw_record c \<noteq> None) feature_cols"
    by code_simp
  have m: "filter (\<lambda>c. raw_record c = None) feature_cols =
      [''total_conditions'', ''risk_score'', ''is_weekend'']"
    by code_simp
  note th = C3_predict_single_outcome [OF t, of _ "scripted_sklearn tied_script"]
  have a: "predict_single (scripted_sklearn tied_script) trained_predictor posted_record =
     Inr \<lparr>no_show_probability = 8 / 10, prediction = 1, risk_level_of = ''High''\<rparr>"
    using th [of posted_record "Num 0" "[[2 / 10, 8 / 10]]" "8 / 10" "[1]" 1] c g pp pr i2 i1
    by (simp only: r simp_thms)
  have b: "predict_single (scripted_sklearn tied_script) trained_predictor raw_record =
     Inl (KeyError [''total_conditions'', ''risk_score'', ''is_weekend''])"
    using th [of raw_record] n by (simp only: m simp_thms)
  show ?thesis
    by (intro conjI t c a n b)
qed

text \<open>What a successful call of \<^verbatim>\<open>predict_single\<close> returns.\<close>

lemma predict_single_result:
  assumes "predict_single sk self patient_data = Inr r"
  shows "\<exists>m X y proba labels.
           best_model self = Some m \<and>
           fst (prepare_features (preprocessor self) (DataFrame_of_dict patient_data) False) =
             Inr (X, y) \<and>
           predict_proba sk m X = Inr proba \<and>
           getitem2 proba 0 1 = Inr (no_show_probability r) \<and>
           predict sk m X = Inr labels \<and>
           getitem labels 0 = Inr (prediction r) \<and>
           risk_level_of r = risk_level (no_show_probability r)"
  using assms
  by (auto simp: predict_single_def and_then_def split: option.splits sum.splits prod.splits)

text \<open>
  C6. Whenever \<^verbatim>\<open>predict_single\<close> returns a result, its probability is the one the
  retained model predicts for the encoded record (row 0, class 1), and, the probability
  being a float, its risk tier is High iff the probability is above 0.6, Medium iff it is
  above 0.3 and at most 0.6, and Low iff it is at most 0.3, with the thresholds read as
  decimals or as float literals alike; in particular the floats 0.30, 0.30001, 0.60 and
  0.60001 get the tiers Low, Medium, Medium and High.
\<close>

theorem C6_predicted_risk_tier:
  assumes "predict_single sk self patient_data = Inr r"
    and "is_float (no_show_probability r)"
  shows "(\<exists>m X y proba.
            best_model self = Some m \<and>
            fst (prepare_features (preprocessor self) (DataFrame_of_dict patient_data) False) =
              Inr (X, y) \<and>
            predict_proba sk m X = Inr proba \<and>
            getitem2 proba 0 1 = Inr (no_show_probability r)) \<and>
         (risk_level_of r = ''High'' \<longleftrightarrow> 6 / 10 < no_show_probability r) \<and>
         (risk_level_of r = ''Medium'' \<longleftrightarrow>
            3 / 10 < no_show_probability r \<and> no_show_probability r \<le> 6 / 10) \<and>
         (risk_level_of r = ''Low'' \<longleftrightarrow> no_show_probability r \<le> 3 / 10) \<and>
         (no_show_probability r = fl (30 / 100) \<longrightarrow> risk_level_of r = ''Low'') \<and>
         (no_show_probability r = fl (30001 / 100000) \<longrightarrow> risk_level_of r = ''Medium'') \<and>
         (no_show_probability r = fl (60 / 100) \<longrightarrow> risk_level_of r = ''Medium'') \<and>
         (no_show_probability r = fl (60001 / 100000) \<longrightarrow> risk_level_of r = ''High'')"
proof -
  from predict_single_result [OF assms(1)] obtain m X y proba where
    src: "best_model self = Some m"
      "fst (prepare_features (preprocessor self) (DataFrame_of_dict patient_data) False) =
         Inr (X, y)"
      "predict_proba sk m X = Inr proba"
      "getitem2 proba 0 1 = Inr (no_show_probability r)"
    and tier: "risk_level_of r = risk_level (no_show_probability r)"
    by blast
  from src have first: "\<exists>m X y proba.
            best_model self = Some m \<and>
            fst (prepare_features (preprocessor self) (DataFrame_of_dict patient_data) False) =
              Inr (X, y) \<and>
            predict_proba sk m X = Inr proba \<and>
            getitem2 proba 0 1 = Inr (no_show_probability r)"
    by blast
  note tiers = risk_level_tiers [OF assms(2), folded tier]
  have points:
    "no_show_probability r = fl (30 / 100) \<longrightarrow> risk_level_of r = ''Low''"
    "no_show_probability r = fl (30001 / 100000) \<longrightarrow> risk_level_of r = ''Medium''"
    "no_show_probability r = fl (60 / 100) \<longrightarrow> risk_level_of r = ''Medium''"
    "no_show_probability r = fl (60001 / 100000) \<longrightarrow> risk_level_of r = ''High''"
    using risk_level_boundaries by (auto simp: tier)
  from first tiers points show ?thesis
    by (intro conjI) blast+
qed

text \<open>
  Four predictions for the posted record of the scenario, by retained models that predict
  the floats 0.30, 0.30001, 0.60 and 0.60001.
\<close>

theorem C6_predicted_risk_tier_witness:
  "predict_single (scripted_sklearn tied_script) (predictor_scoring (fl (30 / 100))) posted_record =
     Inr \<lparr>no_show_probability = fl (30 / 100), prediction = 0, risk_level_of = ''Low''\<rparr> \<and>
   predict_single (scripted_sklearn tied_script) (predictor_scoring (fl (30001 / 100000)))
       posted_record =
     Inr \<lparr>no_show_probability = fl (30001 / 100000), prediction = 0,
          risk_level_of = ''Medium''\<rparr> \<and>
   predict_single (scripted_sklearn tied_script) (predictor_scoring (fl (60 / 100))) posted_record =
     Inr \<lparr>no_show_probability = fl (60 / 100), prediction = 1, risk_level_of = ''Medium''\<rparr> \<and>
   predict_single (scripted_sklearn tied_script) (predictor_scoring (fl (60001 / 100000)))
       posted_record =
     Inr \<lparr>no_show_probability = fl (60001 / 100000), prediction = 1,
          risk_level_of = ''High''\<rparr> \<and>
   is_float (fl (30 / 100)) \<and> is_float (fl (30001 / 100000)) \<and>
   is_float (fl (60 / 100)) \<and> is_float (fl (60001 / 100000)) \<and>
   fl (30 / 100) \<le> 3 / 10 \<and> 3 / 10 < fl (30001 / 100000) \<and>
   fl (60 / 100) \<le> 6 / 10 \<and> 6 / 10 < fl (60001 / 100000)"
proof -
  have r1: "predict_single (scripted_sklearn tied_script) (predictor_scoring (fl (30 / 100)))
      posted_record =
     Inr \<lparr>no_show_probability = fl (30 / 100), prediction = 0, risk_level_of = ''Low''\<rparr>"
    by code_simp
  have r2: "predict_single (scripted_sklearn tied_script)
      (predictor_scoring (fl (30001 / 100000))) posted_record =
     Inr \<lparr>no_show_probability = fl (30001 / 100000), prediction = 0,
          risk_level_of = ''Medium''\<rparr>"
    by code_simp
  have r3: "predict_single (scripted_sklearn tied_script) (predictor_scoring (fl (60 / 100)))
      posted_record =
     Inr \<lparr>no_show_probability = fl (60 / 100), prediction = 1, risk_level_of = ''Medium''\<rparr>"
    by code_simp
  have r4: "predict_single (scripted_sklearn tied_script)
      (predictor_scoring (fl (60001 / 100000))) posted_record =
     Inr \<lparr>no_show_probability = fl (60001 / 100000), prediction = 1,
          risk_level_of = ''High''\<rparr>"
    by code_simp
  have f1: "is_float (fl (30 / 100))" and f2: "is_float (fl (30001 / 100000))"
    and f3: "is_float (fl (60 / 100))" and f4: "is_float (fl (60001 / 100000))"
    by code_simp+
  have b1: "fl (30 / 100) \<le> 3 / 10"
    using C6_predicted_risk_tier [OF r1] f1 by simp
  have b2: "3 / 10 < fl (30001 / 100000)"
    using C6_predicted_risk_tier [OF r2] f2 by simp
  have b3: "fl (60 / 100) \<le> 6 / 10"
    using C6_predicted_risk_tier [OF r3] f3 by simp
  have b4: "6 / 10 < fl (60001 / 100000)"
    using C6_predicted_risk_tier [OF r4] f4 by simp
  show ?thesis
    by (intro conjI r1 r2 r3 r4 f1 f2 f3 f4 b1 b2 b3 b4)
qed

section \<open>Model selection\<close>

text \<open>
  Python's \<open>max\<close> splits its argument around the item it returns: the items before it have a
  strictly smaller key, the items after it a key that is not greater.
\<close>

lemma py_max_from_split:
  "\<exists>pre post. best # xs = pre @ py_max_from key best xs # post \<and>
     (\<forall>x \<in> set pre. key x < key (py_max_from key best xs)) \<and>
     (\<forall>x \<in> set post. key x \<le> key (py_max_from key best xs))"
proof (induction xs arbitrary: best)
  case Nil
  have "[best] = [] @ best # []" by simp
  then show ?case by fastforce
next
  case (Cons x xs)
  show ?case
  proof (cases "key x > key best")
    case True
    define r where "r = py_max_from key x xs"
    have res: "py_max_from key best (x # xs) = r"
      using True by (simp add: r_def)
    from Cons.IH [of x] obtain pre post where
      s: "x # xs = pre @ r # post"
      and l: "\<forall>y \<in> set pre. key y < key r"
      and u: "\<forall>y \<in> set post. key y \<le> key r"
      unfolding r_def by blast
    have "x \<in> set (pre @ r # post)"
      using s [symmetric] by simp
    with l u have "key x \<le> key r"
      by (auto simp: less_imp_le)
    with True have b: "key best < key r" by simp
    have s': "best # x # xs = (best # pre) @ r # post"
      using s by simp
    have l': "\<forall>y \<in> set (best # pre). key y < key r"
      using l b by simp
    from s' l' u show ?thesis
      unfolding res by blast
  next
    case False
    define r where "r = py_max_from key best xs"
    have res: "py_max_from key best (x # xs) = r"
      using False by (simp add: r_def)
    from Cons.IH [of best] obtain pre post where
      s: "best # xs = pre @ r # post"
      and l: "\<forall>y \<in> set pre. key y < key r"
      and u: "\<forall>y \<in> set post. key y \<le> key r"
      unfolding r_def by blast
    show ?thesis
    proof (cases pre)
      case Nil
      with s have e: "r = best" "post = xs" by simp_all
      have s': "best # x # xs = [] @ r # (x # xs)" using e by simp
      have u': "\<forall>y \<in> set (x # xs). key y \<le> key r"
        using u e False by simp
      have l': "\<forall>y \<in> set ([] :: 'a list). key y < key r" by simp
      from s' l' u' show ?thesis
        unfolding res by blast
    next
      case (Cons p pre')
      with s have p: "p = best" and t: "xs = pre' @ r # post"
        by simp_all
      from l Cons p have b: "key best < key r" by simp
      with False have x: "key x < key r" by simp
      have s': "best # x # xs = (best # x # pre') @ r # post"
        using t by simp
      have l': "\<forall>y \<in> set (best # x # pre'). key y < key r"
        using l b x Cons by simp
      from s' l' u show ?thesis
        unfolding res by blast
    qed
  qed
qed

lemma update_fresh:
  "k \<notin> fst ` set xs \<Longrightarrow> AList.update k v xs = xs @ [(k, v)]"
  by (induction xs) auto

text \<open>The loop appends one result for each entry of a menu with distinct names, in order.\<close>

lemma train_loop_results:
  assumes "train_loop sk X_train y_train X_test y_test ms acc = Inr results"
    and "distinct (map fst acc @ map fst ms)"
  shows "\<exists>new. results = acc @ new \<and>
           list_all2 (\<lambda>(name, r) (name', est). name = name' \<and>
             fit_and_score sk est X_train y_train X_test y_test = Inr r) new ms"
  using assms
proof (induction ms arbitrary: acc)
  case Nil
  then show ?case by simp
next
  case (Cons entry ms)
  obtain name est where entry: "entry = (name, est)" by (cases entry)
  from Cons.prems(1) entry obtain r where
    f: "fit_and_score sk est X_train y_train X_test y_test = Inr r"
    and t: "train_loop sk X_train y_train X_test y_test ms (AList.update name r acc) = Inr results"
    by (auto split: sum.splits)
  from Cons.prems(2) entry have fresh: "name \<notin> fst ` set acc" by auto
  then have u: "AList.update name r acc = acc @ [(name, r)]" by (rule update_fresh)
  from Cons.prems(2) entry have "distinct (map fst (acc @ [(name, r)]) @ map fst ms)"
    by auto
  with Cons.IH [of "acc @ [(name, r)]"] t u obtain new where
    n: "results = (acc @ [(name, r)]) @ new"
    and l: "list_all2 (\<lambda>(name, r) (name', est). name = name' \<and>
             fit_and_score sk est X_train y_train X_test y_test = Inr r) new ms"
    by auto
  from n l f entry show ?case
    by (intro exI [of _ "(name, r) # new"]) simp
qed

lemma menu_results:
  assumes "train_loop sk X_train y_train X_test y_test menu [] = Inr results"
  shows "list_all2 (\<lambda>(name, r) (name', est). name = name' \<and>
           fit_and_score sk est X_train y_train X_test y_test = Inr r) results menu"
proof -
  have "distinct (map fst ([] :: (string \<times> 'a model_result) list) @ map fst menu)"
    by (simp add: menu_def)
  from train_loop_results [OF assms this] show ?thesis by simp
qed

lemma menu_results_keys:
  assumes "list_all2 (\<lambda>(name, r) (name', est). name = name' \<and> P est r) results menu"
  shows "map fst results = map fst menu"
proof -
  from assms have "list_all2 (\<lambda>a b. fst a = fst b) results menu"
    by (rule list_all2_mono) auto
  then show ?thesis
    by (simp add: list_all2_conv_all_nth list_eq_iff_nth_eq)
qed

lemma auc_of_entry:
  "distinct (map fst results) \<Longrightarrow> (name, r) \<in> set results \<Longrightarrow>
     auc_of results name = roc_auc (metrics r)"
  by (simp add: auc_of_def)

text \<open>
  C5. After a successful run of \<^verbatim>\<open>train_models\<close> the results are those of the four
  estimators of the menu, in the order of the menu, each measured on the test split; the
  retained model and name are those of an entry whose ROC-AUC is strictly greater than
  that of every entry before it and at least that of every entry after it: the maximum,
  and among several maxima the first of the menu.
\<close>

theorem C5_best_model_selection:
  assumes "train_models out sk self X_train y_train X_test y_test = (Inr results, self')"
  shows "list_all2 (\<lambda>(name, r) (name', est). name = name' \<and>
           fit_and_score sk est X_train y_train X_test y_test = Inr r) results menu \<and>
         models self' = results \<and>
         (\<exists>pre name best post. results = pre @ (name, best) # post \<and>
            best_model_name self' = Some name \<and> best_model self' = Some (model best) \<and>
            (\<forall>r \<in> set pre. roc_auc (metrics (snd r)) < roc_auc (metrics best)) \<and>
            (\<forall>r \<in> set post. roc_auc (metrics (snd r)) \<le> roc_auc (metrics best)))"
proof -
  from assms obtain name best where
    loop: "train_loop sk X_train y_train X_test y_test menu [] = Inr results"
    and mx: "py_max (auc_of results) (map fst results) = Inr name"
    and lk: "lookup results name = Inr best"
    and self': "self' = self\<lparr>best_model := Some (model best), best_model_name := Some name,
                  models := results\<rparr>"
    by (auto simp: train_models_def Let_def split: sum.splits option.splits)
  note all = menu_results [OF loop]
  have keys: "map fst results = map fst menu"
    using all by (rule menu_results_keys)
  have dist: "distinct (map fst results)"
    by (simp add: keys menu_def)
  from mx obtain k ks where ks: "map fst results = k # ks"
    and name: "name = py_max_from (auc_of results) k ks"
    by (auto simp: py_max_def split: list.splits)
  from py_max_from_split [of k ks "auc_of results"] obtain kpre kpost where
    s: "map fst results = kpre @ name # kpost"
    and l: "\<forall>x \<in> set kpre. auc_of results x < auc_of results name"
    and u: "\<forall>x \<in> set kpost. auc_of results x \<le> auc_of results name"
    unfolding ks name by blast
  from s obtain pre e post where
    r: "results = pre @ e # post" and pre: "map fst pre = kpre"
    and e: "fst e = name" and post: "map fst post = kpost"
    by (auto simp: map_eq_append_conv map_eq_Cons_conv)
  have "(name, snd e) \<in> set results"
    using r e by (cases e) auto
  with dist have "map_of results name = Some (snd e)" by simp
  with lk have b: "snd e = best"
    by (simp add: lookup_def)
  then have eb: "e = (name, best)" using e by (cases e) simp
  have best_auc: "auc_of results name = roc_auc (metrics best)"
    using dist r eb by (intro auc_of_entry) simp_all
  have left: "\<forall>x \<in> set pre. roc_auc (metrics (snd x)) < roc_auc (metrics best)"
  proof
    fix x assume x: "x \<in> set pre"
    then have "(fst x, snd x) \<in> set results" using r by simp
    with dist have "auc_of results (fst x) = roc_auc (metrics (snd x))"
      by (rule auc_of_entry)
    moreover have "fst x \<in> set kpre" using x pre by auto
    ultimately show "roc_auc (metrics (snd x)) < roc_auc (metrics best)"
      using l best_auc by auto
  qed
  have right: "\<forall>x \<in> set post. roc_auc (metrics (snd x)) \<le> roc_auc (metrics best)"
  proof
    fix x assume x: "x \<in> set post"
    then have "(fst x, snd x) \<in> set results" using r by simp
    with dist have "auc_of results (fst x) = roc_auc (metrics (snd x))"
      by (rule auc_of_entry)
    moreover have "fst x \<in> set kpost" using x post by auto
    ultimately show "roc_auc (metrics (snd x)) \<le> roc_auc (metrics best)"
      using u best_auc by auto
  qed
  have "results = pre @ (name, best) # post \<and>
        best_model_name self' = Some name \<and> best_model self' = Some (model best) \<and>
        (\<forall>r \<in> set pre. roc_auc (metrics (snd r)) < roc_auc (metrics best)) \<and>
        (\<forall>r \<in> set post. roc_auc (metrics (snd r)) \<le> roc_auc (metrics best))"
    using r eb left right by (simp add: self')
  then have "\<exists>pre name best post. results = pre @ (name, best) # post \<and>
        best_model_name self' = Some name \<and> best_model self' = Some (model best) \<and>
        (\<forall>r \<in> set pre. roc_auc (metrics (snd r)) < roc_auc (metrics best)) \<and>
        (\<forall>r \<in> set post. roc_auc (metrics (snd r)) \<le> roc_auc (metrics best))"
    by blast
  moreover have "models self' = results" by (simp add: self')
  ultimately show ?thesis using all by blast
qed

text \<open>
  A run with a tie: Gradient Boosting and Logistic Regression both measure 0.8, and
  Gradient Boosting, evaluated first, is retained.
\<close>

theorem C5_best_model_selection_witness:
  "fst (train_models utf8_console (scripted_sklearn tied_script) NoShowPredictor_init
          two_row_matrix two_row_labels two_row_matrix two_row_labels) = Inr tied_results \<and>
   models (snd (train_models utf8_console (scripted_sklearn tied_script) NoShowPredictor_init
          two_row_matrix two_row_labels two_row_matrix two_row_labels)) = tied_results \<and>
   best_model_name (snd (train_models utf8_console (scripted_sklearn tied_script) NoShowPredictor_init
          two_row_matrix two_row_labels two_row_matrix two_row_labels)) =
     Some ''Gradient Boosting'' \<and>
   best_model (snd (train_models utf8_console (scripted_sklearn tied_script) NoShowPredictor_init
          two_row_matrix two_row_labels two_row_matrix two_row_labels)) = Some (8 / 10)"
proof -
  define run where "run = train_models utf8_console (scripted_sklearn tied_script)
    (NoShowPredictor_init :: rat NoShowPredictor)
    two_row_matrix two_row_labels two_row_matrix two_row_labels"
  have f: "fst run = Inr tied_results"
    unfolding run_def by code_simp
  then have "run = (Inr tied_results, snd run)"
    by (simp add: prod_eq_iff)
  from C5_best_model_selection [OF this [unfolded run_def]]
  have m: "models (snd run) = tied_results"
    by (simp add: run_def)
  have n: "best_model_name (snd run) = Some ''Gradient Boosting''"
    unfolding run_def by code_simp
  have b: "best_model (snd run) = Some (8 / 10)"
    unfolding run_def by code_simp
  show ?thesis
    using f m n b unfolding run_def by (intro conjI)
qed

section \<open>The generator and the training route\<close>

text \<open>
  C9. The generator is deterministic: it seeds NumPy's generator with 42 before its first
  draw and always draws \<open>n_samples = 10000\<close> rows, so the table it returns, and the state in
  which it leaves the generator, depend neither on the file path nor on the state of the
  generator before the call. Both the count and the seed are constants of the code, so any
  two invocations have the same count and seed.
\<close>

theorem C9_generator_deterministic:
  "load_and_clean_data rng filepath g = load_and_clean_data rng filepath' g'"
  unfolding load_and_clean_data_def by (rule refl)
















end
